theory Spec2Isabelle
  imports Complex_Main "HOL-Library.Sublist"
begin

section \<open>Data model (src/types/index.ts)\<close>

text \<open>
  A \<open>Date\<close> is its number of milliseconds since the epoch. JavaScript strings are
  modelled as \<open>string\<close>; the numeric confidence literals 0.8, 0.9 and 0.5 are the
  rationals they denote (the code only stores and compares them).
  Field names are those of the interfaces, with a prefix where two interfaces share a
  name: \<open>msg_id\<close>, \<open>msg_text\<close> (Message.id, Message.text), \<open>session_id\<close>,
  \<open>session_title\<close> (ChatSession), \<open>rec_\<close> (DatabaseRecord, also \<open>rec_keywords\<close>), \<open>resp_text\<close>
  (ChatBotResponse.text).
\<close>

type_synonym date = int

record Message =
  msg_id :: string
  msg_text :: string
  isUser :: bool
  timestamp :: date
  audioPath :: "string option"

record ChatSession =
  session_id :: string
  session_title :: string
  messages :: "Message list"
  createdAt :: date
  updatedAt :: date

record DatabaseRecord =
  rec_id :: int
  rec_title :: string
  content :: string
  category :: string
  rec_keywords :: "string list"
  rec_createdAt :: string
  rec_updatedAt :: string

text \<open>The union type \<open>'database' | 'api' | 'default'\<close> of ChatBotResponse.source.\<close>

datatype source = Database | Api | Default

record ChatBotResponse =
  resp_text :: string
  confidence :: rat
  source :: source
  relatedTopics :: "string list option"

text \<open>ApiResponse; the payload \<open>data?: any\<close> is a type parameter.\<close>

record 'd ApiResponse =
  success :: bool
  data :: "'d option"
  message :: "string option"
  error :: "string option"

section \<open>Exceptions\<close>

text \<open>
  A thrown value, as far as the code inspects it: a plain \<open>Error(message)\<close>, or an
  AxiosError with its optional \<open>response\<close> (status and \<open>data?.message\<close>), whether it
  has a \<open>request\<close>, and its message. A timeout is an AxiosError with a request and no
  response.
\<close>

record errorResponse =
  status :: nat
  data_message :: "string option"

datatype exn =
    Error string
  | AxiosError "errorResponse option" bool string

text \<open>\<open>try { body } catch (e) { handler(e) }\<close> on results.\<close>

definition try_catch :: "exn + 'a \<Rightarrow> (exn \<Rightarrow> exn + 'a) \<Rightarrow> exn + 'a" where
  "try_catch body handler = (case body of Inl e \<Rightarrow> handler e | Inr v \<Rightarrow> Inr v)"

section \<open>Strings\<close>

text \<open>\<open>a || b\<close> on an optional string: \<open>undefined\<close> and the empty string are falsy.\<close>

definition or_default :: "string option \<Rightarrow> string \<Rightarrow> string" where
  "or_default a b = (case a of None \<Rightarrow> b | Some s \<Rightarrow> if s = [] then b else s)"

text \<open>Decimal rendering of a number inside a template literal.\<close>

definition digit_char :: "nat \<Rightarrow> char" where
  "digit_char d = char_of (48 + d)"

function string_of_nat :: "nat \<Rightarrow> string" where
  "string_of_nat n =
     (if n < 10 then [digit_char n] else string_of_nat (n div 10) @ [digit_char (n mod 10)])"
  by pat_completeness auto
termination
  by (relation "measure (\<lambda>n. n)") auto

declare string_of_nat.simps [simp del]

definition string_of_int :: "int \<Rightarrow> string" where
  "string_of_int i = (if i < 0 then CHR ''-'' # string_of_nat (nat (- i)) else string_of_nat (nat i))"

text \<open>
  \<open>String.prototype.toLowerCase\<close> on the ASCII letters (the model's characters are
  bytes; case mapping of other scripts is outside it).
\<close>

definition lower_char :: "char \<Rightarrow> char" where
  "lower_char c =
     (let n = (of_char c :: nat) in if 65 \<le> n \<and> n \<le> 90 then char_of (n + 32) else c)"

definition toLowerCase :: "string \<Rightarrow> string" where
  "toLowerCase s = map lower_char s"

text \<open>\<open>s.includes(sub)\<close>: \<open>sub\<close> occurs in \<open>s\<close> as a contiguous substring.\<close>

fun str_includes :: "string \<Rightarrow> string \<Rightarrow> bool" where
  "str_includes [] sub = (sub = [])"
| "str_includes (c # cs) sub = (prefix sub (c # cs) \<or> str_includes cs sub)"

section \<open>DatabaseService (database/DatabaseService.ts)\<close>

text \<open>
  The rows of the tables \<open>chat_sessions\<close> and \<open>messages\<close>. DATETIME columns hold the
  ISO string of a date; the model keeps the date itself.
\<close>

record session_row =
  row_id :: string
  row_title :: string
  created_at :: date
  updated_at :: date

record message_row =
  mrow_id :: string
  mrow_session_id :: string
  mrow_text :: string
  is_user :: int
  audio_path :: "string option"
  mrow_timestamp :: date

text \<open>
  The open SQLite handle. The engine is an external library, so the answer of the
  \<open>company_data\<close> SELECT is a component of the handle: \<open>select_company_data db term\<close>
  is what \<open>executeSql(searchQuery, [term, term, term])\<close> followed by the row-decoding
  loop yields for the bound \<open>LIKE\<close> term, or the exception either of them raises
  (a rejected statement, \<open>JSON.parse\<close> on a malformed keywords column).
  \<open>statement_error db\<close> is how \<open>executeSql\<close> answers every other statement: \<open>None\<close>
  when it executes it, \<open>Some e\<close> when it rejects it with \<open>e\<close>.
\<close>

record SQLiteDatabase =
  select_company_data :: "string \<Rightarrow> exn + DatabaseRecord list"
  statement_error :: "exn option"
  chat_sessions :: "session_row list"
  messages_table :: "message_row list"

text \<open>\<open>INSERT OR REPLACE\<close> on a table with primary key \<open>key\<close>.\<close>

definition insert_or_replace :: "('r \<Rightarrow> string) \<Rightarrow> 'r \<Rightarrow> 'r list \<Rightarrow> 'r list" where
  "insert_or_replace key r rows = filter (\<lambda>x. key x \<noteq> key r) rows @ [r]"

definition not_initialized :: exn where
  "not_initialized = Error ''Database not initialized''"

text \<open>
  The state of DatabaseService is its field \<open>database: SQLiteDatabase | null\<close>. A
  method returns its result, or the exception it throws, and the new field.
\<close>

definition searchCompanyData :: "SQLiteDatabase option \<Rightarrow> string \<Rightarrow> exn + DatabaseRecord list" where
  "searchCompanyData database query =
     (case database of
        None \<Rightarrow> Inl not_initialized
      | Some db \<Rightarrow> select_company_data db (''%'' @ query @ ''%''))"

definition saveMessage ::
  "SQLiteDatabase option \<Rightarrow> string \<Rightarrow> Message \<Rightarrow> (exn + unit) \<times> SQLiteDatabase option" where
  "saveMessage database sessionId m =
     (case database of
        None \<Rightarrow> (Inl not_initialized, database)
      | Some db \<Rightarrow>
          (case statement_error db of
             Some e \<Rightarrow> (Inl e, database)
           | None \<Rightarrow>
               (Inr (),
                Some (db\<lparr>messages_table :=
                  insert_or_replace mrow_id
                    \<lparr>mrow_id = msg_id m, mrow_session_id = sessionId, mrow_text = msg_text m,
                     is_user = (if isUser m then 1 else 0), audio_path = audioPath m,
                     mrow_timestamp = timestamp m\<rparr>
                    (messages_table db)\<rparr>))))"

text \<open>The loop \<open>for (const message of session.messages) await this.saveMessage(...)\<close>.\<close>

fun saveMessages ::
  "SQLiteDatabase option \<Rightarrow> string \<Rightarrow> Message list \<Rightarrow> (exn + unit) \<times> SQLiteDatabase option" where
  "saveMessages database sessionId [] = (Inr (), database)"
| "saveMessages database sessionId (m # ms) =
     (case saveMessage database sessionId m of
        (Inl e, database') \<Rightarrow> (Inl e, database')
      | (Inr _, database') \<Rightarrow> saveMessages database' sessionId ms)"

definition saveChatSession ::
  "SQLiteDatabase option \<Rightarrow> ChatSession \<Rightarrow> (exn + unit) \<times> SQLiteDatabase option" where
  "saveChatSession database session =
     (case database of
        None \<Rightarrow> (Inl not_initialized, database)
      | Some db \<Rightarrow>
          (case statement_error db of
             Some e \<Rightarrow> (Inl e, database)
           | None \<Rightarrow>
               saveMessages
                 (Some (db\<lparr>chat_sessions :=
                    insert_or_replace row_id
                      \<lparr>row_id = session_id session, row_title = session_title session,
                       created_at = createdAt session, updated_at = updatedAt session\<rparr>
                      (chat_sessions db)\<rparr>))
                 (session_id session) (messages session)))"

text \<open>
  \<open>SELECT * FROM messages WHERE session_id = ? ORDER BY timestamp ASC\<close>; rows with equal
  keys are kept in table order.
\<close>

definition getSessionMessages :: "SQLiteDatabase option \<Rightarrow> string \<Rightarrow> exn + Message list" where
  "getSessionMessages database sessionId =
     (case database of
        None \<Rightarrow> Inl not_initialized
      | Some db \<Rightarrow>
          (case statement_error db of
             Some e \<Rightarrow> Inl e
           | None \<Rightarrow>
               Inr (map (\<lambda>row. \<lparr>msg_id = mrow_id row, msg_text = mrow_text row,
                                isUser = (is_user row = 1), timestamp = mrow_timestamp row,
                                audioPath = audio_path row\<rparr>)
                      (sort_key mrow_timestamp
                         (filter (\<lambda>row. mrow_session_id row = sessionId) (messages_table db))))))"

fun sessions_of_rows :: "SQLiteDatabase option \<Rightarrow> session_row list \<Rightarrow> exn + ChatSession list" where
  "sessions_of_rows database [] = Inr []"
| "sessions_of_rows database (row # rows) =
     (case getSessionMessages database (row_id row) of
        Inl e \<Rightarrow> Inl e
      | Inr msgs \<Rightarrow>
          (case sessions_of_rows database rows of
             Inl e \<Rightarrow> Inl e
           | Inr sessions \<Rightarrow>
               Inr (\<lparr>session_id = row_id row, session_title = row_title row, messages = msgs,
                     createdAt = created_at row, updatedAt = updated_at row\<rparr> # sessions)))"

text \<open>\<open>SELECT * FROM chat_sessions ORDER BY updated_at DESC\<close>, then the loop over the rows.\<close>

definition getChatSessions :: "SQLiteDatabase option \<Rightarrow> exn + ChatSession list" where
  "getChatSessions database =
     (case database of
        None \<Rightarrow> Inl not_initialized
      | Some db \<Rightarrow>
          (case statement_error db of
             Some e \<Rightarrow> Inl e
           | None \<Rightarrow>
               sessions_of_rows database (sort_key (\<lambda>row. - updated_at row) (chat_sessions db))))"

section \<open>ApiService (services/ApiService.ts)\<close>

fun handleApiError :: "exn \<Rightarrow> 'd ApiResponse" where
  "handleApiError (AxiosError (Some response) request msg) =
     \<lparr>success = False, data = None,
      message = Some (or_default (data_message response) ''Server error occurred''),
      error = Some (''Server error: '' @ string_of_nat (status response))\<rparr>"
| "handleApiError (AxiosError None True msg) =
     \<lparr>success = False, data = None,
      message = Some ''Unable to connect to server. Please check your internet connection.'',
      error = Some ''Network error''\<rparr>"
| "handleApiError (AxiosError None False msg) =
     \<lparr>success = False, data = None,
      message = Some (or_default (Some msg) ''An unexpected error occurred''),
      error = Some ''Request failed''\<rparr>"
| "handleApiError (Error msg) =
     \<lparr>success = False, data = None,
      message = Some (or_default (Some msg) ''An unexpected error occurred''),
      error = Some ''Request failed''\<rparr>"

text \<open>
  What the network does during one call: \<open>NetInfo.fetch()\<close> rejects or yields
  \<open>isConnected\<close> (possibly null), and the axios request rejects or yields
  \<open>response.data\<close>.
\<close>

record 'd network =
  netInfo :: "exn + bool option"
  request :: "exn + 'd option"

definition checkNetworkConnection :: "'d network \<Rightarrow> exn + bool" where
  "checkNetworkConnection net =
     (case netInfo net of
        Inl e \<Rightarrow> Inl e
      | Inr isConnected \<Rightarrow> Inr (case isConnected of None \<Rightarrow> False | Some b \<Rightarrow> b))"

definition no_connection :: "'d ApiResponse" where
  "no_connection =
     \<lparr>success = False, data = None,
      message = Some ''Please check your internet connection and try again.'',
      error = Some ''No internet connection''\<rparr>"

text \<open>
  The body shared, copy by copy, by the remote calls: the connectivity check, the
  request, the success value with the call's own message.
\<close>

definition remote_body :: "'d network \<Rightarrow> string \<Rightarrow> exn + 'd ApiResponse" where
  "remote_body net okMessage =
     (case checkNetworkConnection net of
        Inl e \<Rightarrow> Inl e
      | Inr isConnected \<Rightarrow>
          if \<not> isConnected then Inr no_connection
          else (case request net of
                  Inl e \<Rightarrow> Inl e
                | Inr d \<Rightarrow> Inr \<lparr>success = True, data = d, message = Some okMessage, error = None\<rparr>))"

definition api_searchCompanyData :: "'d network \<Rightarrow> string \<Rightarrow> exn + 'd ApiResponse" where
  "api_searchCompanyData net query =
     try_catch (remote_body net ''Data retrieved successfully'') (\<lambda>e. Inr (handleApiError e))"

definition getChatbotResponse ::
  "ChatBotResponse network \<Rightarrow> string \<Rightarrow> exn + ChatBotResponse ApiResponse" where
  "getChatbotResponse net msg =
     try_catch (remote_body net ''Response generated successfully'') (\<lambda>e. Inr (handleApiError e))"

definition uploadAudioFile :: "'d network \<Rightarrow> string \<Rightarrow> exn + 'd ApiResponse" where
  "uploadAudioFile net audioPath' =
     try_catch (remote_body net ''Audio uploaded successfully'') (\<lambda>e. Inr (handleApiError e))"

definition syncLocalData :: "'d network \<Rightarrow> string option \<Rightarrow> exn + 'd ApiResponse" where
  "syncLocalData net lastSyncTimestamp =
     try_catch (remote_body net ''Data synchronized successfully'') (\<lambda>e. Inr (handleApiError e))"

text \<open>The offline generator.\<close>

definition greeting :: ChatBotResponse where
  "greeting =
     \<lparr>resp_text = ''Hello! How can I help you today? I can assist you with company information and answer your questions.'',
      confidence = 9 / 10, source = Default,
      relatedTopics = Some [''greeting'', ''help'', ''assistance'']\<rparr>"

text \<open>The bullet U+2022 of the help text, as its UTF-8 bytes.\<close>

definition bullet :: string where
  "bullet = [CHR 0xE2, CHR 0x80, CHR 0xA2]"

definition help_reply :: ChatBotResponse where
  "help_reply =
     \<lparr>resp_text =
        ''I can help you with:'' @ [CHR 0x0A] @
        bullet @ '' Company information and policies'' @ [CHR 0x0A] @
        bullet @ '' Product details'' @ [CHR 0x0A] @
        bullet @ '' General inquiries'' @ [CHR 0x0A] @
        bullet @ '' Voice commands'' @ [CHR 0x0A, CHR 0x0A] @
        ''Just ask me anything or use voice input!'',
      confidence = 8 / 10, source = Default,
      relatedTopics = Some [''help'', ''features'', ''voice'']\<rparr>"

definition thanks_reply :: ChatBotResponse where
  "thanks_reply =
     \<lparr>resp_text = ''You're welcome! Is there anything else I can help you with?'',
      confidence = 9 / 10, source = Default,
      relatedTopics = Some [''thanks'', ''assistance'']\<rparr>"

definition echo_reply :: "string \<Rightarrow> ChatBotResponse" where
  "echo_reply msg =
     \<lparr>resp_text = ''I understand you're asking about: \"'' @ msg @ ''\". Let me search our database for relevant information. If you need immediate assistance, please try rephrasing your question.'',
      confidence = 5 / 10, source = Default,
      relatedTopics = Some [''search'', ''information'']\<rparr>"

definition generateMockResponse :: "string \<Rightarrow> ChatBotResponse" where
  "generateMockResponse msg =
     (let lowercaseMessage = toLowerCase msg in
      if str_includes lowercaseMessage ''hello'' \<or> str_includes lowercaseMessage ''hi'' then greeting
      else if str_includes lowercaseMessage ''help'' then help_reply
      else if str_includes lowercaseMessage ''thank'' then thanks_reply
      else echo_reply msg)"

section \<open>ChatBotService (services/ChatBotService.ts)\<close>

text \<open>
  What a call reads from its environment. For \<open>createNewSession\<close>: \<open>Date.now()\<close>,
  the nine characters \<open>Math.random().toString(36).substr(2, 9)\<close>, \<open>new Date()\<close> and
  its \<open>toLocaleDateString()\<close>. For \<open>sendMessage\<close>: the reads of the implicit
  \<open>createNewSession\<close>, then \<open>Date.now()\<close> and the random characters of the message
  identifier, then the two \<open>new Date()\<close> of lines 113 and 117, in this order.
\<close>

record createReads =
  c_now :: int
  c_random :: string
  c_date :: date
  c_localeDate :: string

record sendReads =
  s_create :: createReads
  s_now :: int
  s_random :: string
  s_timestamp :: date
  s_updatedAt :: date

text \<open>
  An asynchronous call runs until its first \<open>await\<close> and is then suspended; the event
  loop resumes it when the awaited operation has settled, and other code runs in
  between. A suspended call of the service is one of:
  \<^item> \<open>Creating\<close>: \<open>sendMessage\<close> at line 105, waiting for \<open>createNewSession\<close>, whose
    session (the argument of its \<open>saveChatSession\<close>) is recorded;
  \<^item> \<open>Writing\<close>: \<open>sendMessage\<close> at lines 119 and 120, waiting for the two writes of
    the message it has appended, with the session identifier evaluated at line 119;
  \<^item> \<open>Searching\<close>: \<open>generateResponse\<close> at line 138, waiting for the local search;
  \<^item> \<open>Calling\<close>: \<open>generateResponse\<close> at line 151, waiting for the remote call.
  A suspended \<open>sendMessage\<close> records its arguments and who called it: the user
  interface, the \<open>try\<close> block of \<open>generateResponse\<close> (line 162) or its \<open>catch\<close> block
  (line 166).
\<close>

datatype caller = UI | TryBlock | CatchBlock

datatype task =
    Creating caller string bool ChatSession
  | Writing caller string bool string Message
  | Searching string
  | Calling string

text \<open>
  The state of the application: the two fields of ChatBotService; the field of
  DatabaseService; the pending \<open>setTimeout\<close> callbacks of line 124 (the \<open>userMessage\<close>
  of each, oldest first; all have the same delay); the suspended calls; what the calls
  of \<open>sendMessage\<close> made by the user interface have returned or thrown, in the order
  they settled; and the exceptions \<open>generateResponse\<close> has ended with (nothing awaits
  the promise of line 124).
\<close>

record app =
  currentSession :: "ChatSession option"
  isProcessing :: bool
  database :: "SQLiteDatabase option"
  timers :: "string list"
  tasks :: "task list"
  returned :: "(exn + Message) list"
  unhandled :: "exn list"

subsection \<open>The methods run from call to completion\<close>

text \<open>
  Each method as the function of the state it is when nothing else runs between its
  call and its completion: it returns its result, or the exception it throws, and the
  new state.
\<close>

text \<open>Lines 73 to 82 of \<open>createNewSession\<close>: the new session.\<close>

definition newSession :: "string option \<Rightarrow> createReads \<Rightarrow> ChatSession" where
  "newSession title' rd =
     (let sessionId = ''session_'' @ string_of_int (c_now rd) @ ''_'' @ c_random rd;
          now = c_date rd
      in \<lparr>session_id = sessionId,
          session_title = or_default title' (''Chat '' @ c_localeDate rd),
          messages = [], createdAt = now, updatedAt = now\<rparr>)"

definition createNewSession ::
  "app \<Rightarrow> string option \<Rightarrow> createReads \<Rightarrow> (exn + ChatSession) \<times> app" where
  "createNewSession st title' rd =
     (let session = newSession title' rd;
          st1 = st\<lparr>currentSession := Some session\<rparr>
      in case saveChatSession (database st1) session of
           (Inl e, db) \<Rightarrow> (Inl e, st1\<lparr>database := db\<rparr>)
         | (Inr _, db) \<Rightarrow> (Inr session, st1\<lparr>database := db\<rparr>))"

definition loadSession :: "app \<Rightarrow> string \<Rightarrow> (exn + ChatSession option) \<times> app" where
  "loadSession st sessionId =
     (case getChatSessions (database st) of
        Inl e \<Rightarrow> (Inr None, st)
      | Inr sessions \<Rightarrow>
          (case find (\<lambda>s. session_id s = sessionId) sessions of
             Some session \<Rightarrow> (Inr (Some session), st\<lparr>currentSession := Some session\<rparr>)
           | None \<Rightarrow> (Inr None, st)))"

definition getAllSessions :: "app \<Rightarrow> (exn + ChatSession list) \<times> app" where
  "getAllSessions st = (getChatSessions (database st), st)"

text \<open>Lines 104 to 106 of \<open>sendMessage\<close>.\<close>

definition ensureSession :: "app \<Rightarrow> createReads \<Rightarrow> (exn + unit) \<times> app" where
  "ensureSession st rd =
     (if currentSession st = None then
        (case createNewSession st None rd of
           (Inl e, st1) \<Rightarrow> (Inl e, st1)
         | (Inr _, st1) \<Rightarrow> (Inr (), st1))
      else (Inr (), st))"

text \<open>Lines 108 to 114: the new message.\<close>

definition newMessage :: "string \<Rightarrow> bool \<Rightarrow> sendReads \<Rightarrow> Message" where
  "newMessage text' isUser' rd =
     \<lparr>msg_id = ''msg_'' @ string_of_int (s_now rd) @ ''_'' @ s_random rd,
      msg_text = text', isUser = isUser', timestamp = s_timestamp rd, audioPath = None\<rparr>"

text \<open>Lines 116 and 117: the append and the new \<open>updatedAt\<close>.\<close>

definition appendMessage :: "ChatSession \<Rightarrow> Message \<Rightarrow> sendReads \<Rightarrow> ChatSession" where
  "appendMessage session m rd =
     session\<lparr>messages := messages session @ [m], updatedAt := s_updatedAt rd\<rparr>"

text \<open>Lines 119 and 120: the two writes.\<close>

definition persist ::
  "SQLiteDatabase option \<Rightarrow> ChatSession \<Rightarrow> Message \<Rightarrow> (exn + unit) \<times> SQLiteDatabase option" where
  "persist db session m =
     (case saveMessage db (session_id session) m of
        (Inl e, db1) \<Rightarrow> (Inl e, db1)
      | (Inr _, db1) \<Rightarrow> saveChatSession db1 session)"

text \<open>Lines 123 to 125: the timer of a user message.\<close>

definition schedule :: "app \<Rightarrow> string \<Rightarrow> bool \<Rightarrow> app" where
  "schedule st text' isUser' =
     (if isUser' \<and> \<not> isProcessing st then st\<lparr>timers := timers st @ [text']\<rparr> else st)"

definition null_session :: exn where
  "null_session = Error ''Cannot read properties of null''"

definition sendMessage :: "app \<Rightarrow> string \<Rightarrow> bool \<Rightarrow> sendReads \<Rightarrow> (exn + Message) \<times> app" where
  "sendMessage st text' isUser' rd =
     (case ensureSession st (s_create rd) of
        (Inl e, st1) \<Rightarrow> (Inl e, st1)
      | (Inr _, st1) \<Rightarrow>
          (case currentSession st1 of
             None \<Rightarrow> (Inl null_session, st1)
           | Some session \<Rightarrow>
               (let m = newMessage text' isUser' rd;
                    session' = appendMessage session m rd;
                    st2 = st1\<lparr>currentSession := Some session'\<rparr>
                in case persist (database st2) session' m of
                     (Inl e, db) \<Rightarrow> (Inl e, st2\<lparr>database := db\<rparr>)
                   | (Inr _, db) \<Rightarrow> (Inr m, schedule (st2\<lparr>database := db\<rparr>) text' isUser'))))"

definition apology :: string where
  "apology = ''I apologize, but I encountered an error while processing your request. Please try again.''"

text \<open>Lines 135 to 159 of \<open>generateResponse\<close>: the value of \<open>response\<close>.\<close>

definition resolveResponse ::
  "SQLiteDatabase option \<Rightarrow> ChatBotResponse network \<Rightarrow> string \<Rightarrow> exn + ChatBotResponse" where
  "resolveResponse db net userMessage =
     (case searchCompanyData db userMessage of
        Inl e \<Rightarrow> Inl e
      | Inr localResults \<Rightarrow>
          (case localResults of
             bestMatch # _ \<Rightarrow>
               Inr \<lparr>resp_text = content bestMatch, confidence = 8 / 10, source = Database,
                    relatedTopics = Some (rec_keywords bestMatch)\<rparr>
           | [] \<Rightarrow>
               (case getChatbotResponse net userMessage of
                  Inl e \<Rightarrow> Inl e
                | Inr apiResponse \<Rightarrow>
                    (case data apiResponse of
                       Some d \<Rightarrow> if success apiResponse then Inr d
                                 else Inr (generateMockResponse userMessage)
                     | None \<Rightarrow> Inr (generateMockResponse userMessage)))))"

subsection \<open>The methods between two suspensions\<close>

text \<open>
  \<open>sendMessage\<close> on an active session, from line 108 to its suspension at line 119: the
  message is appended and the call waits for its writes.
\<close>

definition sendMessage_append ::
  "caller \<Rightarrow> app \<Rightarrow> ChatSession \<Rightarrow> string \<Rightarrow> bool \<Rightarrow> sendReads \<Rightarrow> app" where
  "sendMessage_append c st session text' isUser' rd =
     (let m = newMessage text' isUser' rd;
          session' = appendMessage session m rd
      in st\<lparr>currentSession := Some session',
            tasks := tasks st @ [Writing c text' isUser' (session_id session') m]\<rparr>)"

text \<open>
  \<open>sendMessage\<close> from its call to its first suspension. Without an active session that
  is line 105: \<open>createNewSession\<close> has set the new session (line 76) and waits for its
  write.
\<close>

definition sendMessage_call :: "caller \<Rightarrow> app \<Rightarrow> string \<Rightarrow> bool \<Rightarrow> sendReads \<Rightarrow> app" where
  "sendMessage_call c st text' isUser' rd =
     (case currentSession st of
        None \<Rightarrow>
          (let session = newSession None (s_create rd)
           in st\<lparr>currentSession := Some session,
                 tasks := tasks st @ [Creating c text' isUser' session]\<rparr>)
      | Some session \<Rightarrow> sendMessage_append c st session text' isUser' rd)"

text \<open>
  \<open>generateResponse\<close> from its call to its suspension at line 138: the guard of line
  131, the flag, and the search started.
\<close>

definition generateResponse_call :: "app \<Rightarrow> string \<Rightarrow> app" where
  "generateResponse_call st userMessage =
     (if isProcessing st then st
      else st\<lparr>isProcessing := True, tasks := tasks st @ [Searching userMessage]\<rparr>)"

text \<open>Lines 143 to 148 and 153 to 158: the response from a record, and from the remote call.\<close>

definition databaseResponse :: "DatabaseRecord \<Rightarrow> ChatBotResponse" where
  "databaseResponse bestMatch =
     \<lparr>resp_text = content bestMatch, confidence = 8 / 10, source = Database,
      relatedTopics = Some (rec_keywords bestMatch)\<rparr>"

definition remoteResponse :: "ChatBotResponse ApiResponse \<Rightarrow> string \<Rightarrow> ChatBotResponse" where
  "remoteResponse apiResponse userMessage =
     (case data apiResponse of
        Some d \<Rightarrow> if success apiResponse then d else generateMockResponse userMessage
      | None \<Rightarrow> generateMockResponse userMessage)"

text \<open>The \<open>catch\<close> block, lines 164 to 169, up to the suspension of its \<open>sendMessage\<close>.\<close>

definition catch_block :: "app \<Rightarrow> sendReads \<Rightarrow> app" where
  "catch_block st rd = sendMessage_call CatchBlock st apology False rd"

text \<open>
  A call of \<open>sendMessage\<close> settles, and its caller goes on. The user interface receives
  the result. In the \<open>try\<close> block a message ends the block and the \<open>finally\<close> of line 171
  clears the flag, and an exception enters the \<open>catch\<close> block. In the \<open>catch\<close> block
  the \<open>finally\<close> clears the flag in both cases, and an exception leaves
  \<open>generateResponse\<close>.
\<close>

fun settle :: "caller \<Rightarrow> exn + Message \<Rightarrow> app \<Rightarrow> sendReads \<Rightarrow> app" where
  "settle UI r st rd = st\<lparr>returned := returned st @ [r]\<rparr>"
| "settle TryBlock (Inr m) st rd = st\<lparr>isProcessing := False\<rparr>"
| "settle TryBlock (Inl e) st rd = catch_block st rd"
| "settle CatchBlock (Inr m) st rd = st\<lparr>isProcessing := False\<rparr>"
| "settle CatchBlock (Inl e) st rd = st\<lparr>isProcessing := False, unhandled := unhandled st @ [e]\<rparr>"

text \<open>
  A suspended call resumes, in the state from which it has been taken out of the
  suspended calls. The statements a call waits for are executed, and answered, when it
  resumes (the null check of \<open>database\<close> included: no event opens or closes the
  database). The two awaits of lines 119 and 120 are one suspension, and so are the
  awaits inside \<open>getChatbotResponse\<close>: the code that runs between them reads and writes
  none of \<open>currentSession\<close>, \<open>isProcessing\<close> and the timers. \<open>net\<close> is what the
  network does for a remote call, \<open>rd\<close> what the code that runs reads from the clock and
  the random generator.
\<close>

fun resume :: "task \<Rightarrow> ChatBotResponse network \<Rightarrow> sendReads \<Rightarrow> app \<Rightarrow> app" where
  "resume (Creating c text' isUser' session) net rd st =
     (case saveChatSession (database st) session of
        (Inl e, db) \<Rightarrow> settle c (Inl e) (st\<lparr>database := db\<rparr>) rd
      | (Inr _, db) \<Rightarrow>
          (case currentSession st of
             None \<Rightarrow> settle c (Inl null_session) (st\<lparr>database := db\<rparr>) rd
           | Some s \<Rightarrow> sendMessage_append c (st\<lparr>database := db\<rparr>) s text' isUser' rd))"
| "resume (Writing c text' isUser' sessionId m) net rd st =
     (case saveMessage (database st) sessionId m of
        (Inl e, db) \<Rightarrow> settle c (Inl e) (st\<lparr>database := db\<rparr>) rd
      | (Inr _, db) \<Rightarrow>
          (case currentSession st of
             None \<Rightarrow> settle c (Inl null_session) (st\<lparr>database := db\<rparr>) rd
           | Some s \<Rightarrow>
               (case saveChatSession db s of
                  (Inl e, db') \<Rightarrow> settle c (Inl e) (st\<lparr>database := db'\<rparr>) rd
                | (Inr _, db') \<Rightarrow>
                    settle c (Inr m) (schedule (st\<lparr>database := db'\<rparr>) text' isUser') rd)))"
| "resume (Searching userMessage) net rd st =
     (case searchCompanyData (database st) userMessage of
        Inl e \<Rightarrow> catch_block st rd
      | Inr localResults \<Rightarrow>
          (case localResults of
             bestMatch # _ \<Rightarrow>
               sendMessage_call TryBlock st (resp_text (databaseResponse bestMatch)) False rd
           | [] \<Rightarrow> st\<lparr>tasks := tasks st @ [Calling userMessage]\<rparr>))"
| "resume (Calling userMessage) net rd st =
     (case getChatbotResponse net userMessage of
        Inl e \<Rightarrow> catch_block st rd
      | Inr apiResponse \<Rightarrow>
          sendMessage_call TryBlock st (resp_text (remoteResponse apiResponse userMessage)) False rd)"

section \<open>The event loop\<close>

text \<open>
  JavaScript runs one piece of code at a time and switches only at an \<open>await\<close>. The
  events are: the user interface calling \<open>createNewSession\<close> (all it does after its
  first \<open>await\<close> is the write and the return, so the call is one event) or
  \<open>sendMessage\<close> (a user turn, or the welcome message as an assistant turn); the oldest
  timer firing, which calls \<open>generateResponse\<close>; the suspended call at a given position
  resuming; and the SQLite engine changing how it answers from now on (the data
  changes, a disk fills up), so that an engine change just before a resumption chooses
  how the statements of that call are answered. Suspended calls resume in any order.
  \<open>loadSession\<close>, \<open>deleteSession\<close> and \<open>cleanup\<close> are not among the events.
\<close>

datatype event =
    CreateSession "string option" createReads
  | SendMessage string bool sendReads
  | TimerFires
  | Resumes nat "ChatBotResponse network" sendReads
  | EngineChanges "string \<Rightarrow> exn + DatabaseRecord list" "exn option"

fun step :: "event \<Rightarrow> app \<Rightarrow> app" where
  "step (CreateSession title' rd) st = snd (createNewSession st title' rd)"
| "step (SendMessage text' isUser' rd) st = sendMessage_call UI st text' isUser' rd"
| "step TimerFires st =
     (case timers st of
        [] \<Rightarrow> st
      | userMessage # rest \<Rightarrow> generateResponse_call (st\<lparr>timers := rest\<rparr>) userMessage)"
| "step (Resumes i net rd) st =
     (if i < length (tasks st)
      then resume (tasks st ! i) net rd (st\<lparr>tasks := take i (tasks st) @ drop (Suc i) (tasks st)\<rparr>)
      else st)"
| "step (EngineChanges answer err) st =
     st\<lparr>database :=
          map_option (\<lambda>db. db\<lparr>select_company_data := answer, statement_error := err\<rparr>)
            (database st)\<rparr>"

fun exec :: "event list \<Rightarrow> app \<Rightarrow> app" where
  "exec [] st = st"
| "exec (e # es) st = exec es (step e st)"

text \<open>The service as constructed (lines 8 and 9), over a given database field.\<close>

definition initial :: "SQLiteDatabase option \<Rightarrow> app" where
  "initial db =
     \<lparr>currentSession = None, isProcessing = False, database = db, timers = [], tasks = [],
      returned = [], unhandled = []\<rparr>"

section \<open>Predicates of the properties\<close>

text \<open>The suspended calls that belong to a generation, and those of the state.\<close>

fun generating :: "task \<Rightarrow> bool" where
  "generating (Creating c text' isUser' session) = (c \<noteq> UI)"
| "generating (Writing c text' isUser' sessionId m) = (c \<noteq> UI)"
| "generating (Searching userMessage) = True"
| "generating (Calling userMessage) = True"

definition generations :: "app \<Rightarrow> task list" where
  "generations st = filter generating (tasks st)"

text \<open>
  Single flight: while the flag is set exactly one generation is suspended, and none
  while it is clear.
\<close>

definition single_flight :: "app \<Rightarrow> bool" where
  "single_flight st =
     (if isProcessing st then length (generations st) = 1 else generations st = [])"

text \<open>Nothing is pending or suspended before there is an active session.\<close>

definition has_session :: "app \<Rightarrow> bool" where
  "has_session st = (currentSession st \<noteq> None \<or> (tasks st = [] \<and> timers st = []))"

text \<open>No message of the session is younger than the session's \<open>updatedAt\<close>.\<close>

definition session_ok :: "ChatSession \<Rightarrow> bool" where
  "session_ok s = list_all (\<lambda>m. timestamp m \<le> updatedAt s) (messages s)"

definition active_session_ok :: "app \<Rightarrow> bool" where
  "active_session_ok st = (case currentSession st of None \<Rightarrow> True | Some s \<Rightarrow> session_ok s)"

text \<open>
  The values of the clock at the \<open>new Date()\<close> an event may reach, in program order:
  line 74 for \<open>createNewSession\<close>; for the code of \<open>sendMessage\<close> run by a call or a
  resumption, line 74 (in the implicit \<open>createNewSession\<close>), then lines 113 and 117.
\<close>

definition send_dates :: "sendReads \<Rightarrow> date list" where
  "send_dates rd = [c_date (s_create rd), s_timestamp rd, s_updatedAt rd]"

fun dates_of :: "event \<Rightarrow> date list" where
  "dates_of (CreateSession title' rd) = [c_date rd]"
| "dates_of (SendMessage text' isUser' rd) = send_dates rd"
| "dates_of TimerFires = []"
| "dates_of (Resumes i net rd) = send_dates rd"
| "dates_of (EngineChanges answer err) = []"

text \<open>
  The invariant carried along a run: the clock values still to come are in order, and
  the active session is well formed and not younger than any of them.
\<close>

definition good :: "app \<Rightarrow> date list \<Rightarrow> bool" where
  "good st ds =
     (sorted ds \<and>
      (\<forall>s. currentSession st = Some s \<longrightarrow> session_ok s \<and> (\<forall>d\<in>set ds. updatedAt s \<le> d)))"

text \<open>
  A remote call fails when the connectivity check does not answer \<open>true\<close> or the request
  rejects (server error, network error, timeout, anything else thrown).
\<close>

definition call_fails :: "'d network \<Rightarrow> bool" where
  "call_fails net =
     (case netInfo net of
        Inl e \<Rightarrow> True
      | Inr None \<Rightarrow> True
      | Inr (Some isConnected) \<Rightarrow>
          (if isConnected then (case request net of Inl e \<Rightarrow> True | Inr d \<Rightarrow> False) else True))"

definition greets :: "string \<Rightarrow> bool" where
  "greets msg = (str_includes (toLowerCase msg) ''hello'' \<or> str_includes (toLowerCase msg) ''hi'')"

section \<open>Sample data\<close>

text \<open>The third record of \<open>loadSampleData\<close>, and three answers of the search statement.\<close>

definition support_policy :: DatabaseRecord where
  "support_policy =
     \<lparr>rec_id = 3, rec_title = ''Support Policy'',
      content = ''Our support team is available 24/7 to assist customers. We provide email, phone, and chat support with response times under 2 hours.'',
      category = ''support'',
      rec_keywords = [''support'', ''help'', ''customer service'', ''24/7'', ''response time''],
      rec_createdAt = ''2026-01-01T00:00:00.000Z'', rec_updatedAt = ''2026-01-01T00:00:00.000Z''\<rparr>"

definition no_match :: "string \<Rightarrow> exn + DatabaseRecord list" where
  "no_match term' = Inr []"

definition support_match :: "string \<Rightarrow> exn + DatabaseRecord list" where
  "support_match term' = Inr [support_policy]"

definition failing_search :: "string \<Rightarrow> exn + DatabaseRecord list" where
  "failing_search term' = Inl (Error ''disk I/O error'')"

text \<open>An open database with empty tables that executes every other statement.\<close>

definition open_db :: "(string \<Rightarrow> exn + DatabaseRecord list) \<Rightarrow> SQLiteDatabase option" where
  "open_db answer =
     Some \<lparr>select_company_data = answer, statement_error = None, chat_sessions = [],
           messages_table = []\<rparr>"

text \<open>All the reads of one call made at the same millisecond \<open>t\<close>.\<close>

definition reads_at :: "date \<Rightarrow> sendReads" where
  "reads_at t =
     \<lparr>s_create = \<lparr>c_now = t, c_random = ''k3j9x0q1z'', c_date = t, c_localeDate = ''11/2/2026''\<rparr>,
      s_now = t, s_random = ''p7d2m5w8a'', s_timestamp = t, s_updatedAt = t\<rparr>"

text \<open>Reads during which the clock is set back: 20 at line 113, then 15 at line 117.\<close>

definition clock_set_back :: sendReads where
  "clock_set_back = (reads_at 20)\<lparr>s_updatedAt := 15\<rparr>"

definition offline :: "ChatBotResponse network" where
  "offline = \<lparr>netInfo = Inr (Some False), request = Inl (AxiosError None True ''Network Error'')\<rparr>"

definition timed_out :: "ChatBotResponse network" where
  "timed_out =
     \<lparr>netInfo = Inr (Some True), request = Inl (AxiosError None True ''timeout of 10000ms exceeded'')\<rparr>"

definition server_down :: "ChatBotResponse network" where
  "server_down =
     \<lparr>netInfo = Inr (Some True),
      request = Inl (AxiosError (Some \<lparr>status = 503, data_message = None\<rparr>) True ''Request failed with status code 503'')\<rparr>"

definition remote_answer :: ChatBotResponse where
  "remote_answer =
     \<lparr>resp_text = ''Our plans start at 10 dollars.'', confidence = 7 / 10, source = Api,
      relatedTopics = None\<rparr>"

definition online :: "ChatBotResponse network" where
  "online = \<lparr>netInfo = Inr (Some True), request = Inr (Some remote_answer)\<rparr>"

text \<open>
  The first user turn on a new service, up to its generation waiting for the search:
  the call (which creates the session), its two resumptions, and its timer firing.
\<close>

definition first_turn :: "event list" where
  "first_turn =
     [SendMessage ''hello'' True (reads_at 1000), Resumes 0 offline (reads_at 1001),
      Resumes 0 offline (reads_at 1002), TimerFires]"

text \<open>
  A second user turn sent during that generation. In \<open>answered_early\<close> it is sent
  while the generation waits for the remote call, and its writes are answered, so that
  the call reaches line 123, before the remote call returns. In \<open>answered_late\<close> it is
  sent while the generation waits for the writes of its reply, and its own writes are
  answered after those. Both runs go on until nothing is suspended.
\<close>

definition early_pending :: "event list" where
  "early_pending =
     first_turn @
     [Resumes 0 offline (reads_at 1500), SendMessage ''what are your prices'' True (reads_at 2000)]"

definition answered_early :: "event list" where
  "answered_early =
     early_pending @
     [Resumes 1 offline (reads_at 2001), Resumes 0 offline (reads_at 3000),
      Resumes 0 offline (reads_at 3001)]"

definition late_sent :: "event list" where
  "late_sent =
     first_turn @
     [Resumes 0 offline (reads_at 1500), Resumes 0 offline (reads_at 1600),
      SendMessage ''what are your prices'' True (reads_at 2000)]"

definition late_pending :: "event list" where
  "late_pending = late_sent @ [Resumes 0 offline (reads_at 2001)]"

definition answered_late :: "event list" where
  "answered_late = late_pending @ [Resumes 0 offline (reads_at 2002)]"

text \<open>
  The first turn with its generation going on: the search resumes, then what is
  suspended next, twice, with the network up and the remote service answering.
\<close>

definition search_resumed :: "event list" where
  "search_resumed = first_turn @ [Resumes 0 online (reads_at 3000)]"

definition generation_run :: "event list" where
  "generation_run =
     search_resumed @ [Resumes 0 online (reads_at 3001), Resumes 0 online (reads_at 3002)]"

text \<open>
  Two user turns completed before the timer of the first fires, then both timers
  firing.
\<close>

definition both_scheduled :: "event list" where
  "both_scheduled =
     [SendMessage ''hello'' True (reads_at 1000), Resumes 0 offline (reads_at 1001),
      Resumes 0 offline (reads_at 1002),
      SendMessage ''thanks'' True (reads_at 1200), Resumes 0 offline (reads_at 1201)]"

definition two_timers :: "event list" where
  "two_timers = both_scheduled @ [TimerFires, TimerFires]"

text \<open>A session created by the user interface, and a message sent while the clock is set back.\<close>

definition set_back_run :: "event list" where
  "set_back_run =
     [CreateSession None (s_create (reads_at 10)), SendMessage ''hello'' True clock_set_back]"

text \<open>A service with an empty active session over a given database field.\<close>

definition with_session :: "SQLiteDatabase option \<Rightarrow> app" where
  "with_session db =
     \<lparr>currentSession = Some (newSession None (s_create (reads_at 1))), isProcessing = False,
      database = db, timers = [], tasks = [], returned = [], unhandled = []\<rparr>"

section \<open>Lemmas on the model\<close>

lemmas model_defs =
  first_turn_def early_pending_def answered_early_def late_sent_def late_pending_def
  answered_late_def
  search_resumed_def generation_run_def both_scheduled_def two_timers_def set_back_run_def
  with_session_def initial_def open_db_def reads_at_def clock_set_back_def
  no_match_def support_match_def failing_search_def offline_def online_def timed_out_def
  server_down_def remote_answer_def
  sendMessage_def ensureSession_def createNewSession_def newSession_def saveChatSession_def
  saveMessage_def persist_def schedule_def newMessage_def appendMessage_def
  sendMessage_append_def sendMessage_call_def generateResponse_call_def databaseResponse_def
  remoteResponse_def catch_block_def
  resolveResponse_def searchCompanyData_def getChatbotResponse_def try_catch_def remote_body_def
  checkNetworkConnection_def no_connection_def insert_or_replace_def Let_def

lemma str_includes_sublist: "str_includes s sub = sublist sub s"
  by (induction s) (auto simp: sublist_Cons_right)

lemma hello_greets: "generateMockResponse ''hello'' = greeting"
  by (simp add: generateMockResponse_def toLowerCase_def lower_char_def)

lemma exec_append: "exec (xs @ ys) st = exec ys (exec xs st)"
  by (induction xs arbitrary: st) simp_all

subsection \<open>The stages of \<open>resolveResponse\<close>\<close>

lemma resolveResponse_stages:
  "resolveResponse db net userMessage =
     (case searchCompanyData db userMessage of
        Inl e \<Rightarrow> Inl e
      | Inr [] \<Rightarrow>
          (case getChatbotResponse net userMessage of
             Inl e \<Rightarrow> Inl e
           | Inr apiResponse \<Rightarrow> Inr (remoteResponse apiResponse userMessage))
      | Inr (bestMatch # others) \<Rightarrow> Inr (databaseResponse bestMatch))"
  by (simp add: resolveResponse_def remoteResponse_def databaseResponse_def
        split: sum.splits list.splits option.splits)

subsection \<open>What the pieces change\<close>

lemma createNewSession_snd:
  "currentSession (snd (createNewSession st title' rd)) = Some (newSession title' rd)"
  "isProcessing (snd (createNewSession st title' rd)) = isProcessing st"
  "tasks (snd (createNewSession st title' rd)) = tasks st"
  "timers (snd (createNewSession st title' rd)) = timers st"
  "returned (snd (createNewSession st title' rd)) = returned st"
  "unhandled (snd (createNewSession st title' rd)) = unhandled st"
  by (simp_all add: createNewSession_def Let_def split: prod.splits sum.splits)

lemma sendMessage_append_fields:
  "currentSession (sendMessage_append c st s text' isUser' rd) =
     Some (appendMessage s (newMessage text' isUser' rd) rd)"
  "isProcessing (sendMessage_append c st s text' isUser' rd) = isProcessing st"
  "tasks (sendMessage_append c st s text' isUser' rd) =
     tasks st @ [Writing c text' isUser' (session_id s) (newMessage text' isUser' rd)]"
  "timers (sendMessage_append c st s text' isUser' rd) = timers st"
  "returned (sendMessage_append c st s text' isUser' rd) = returned st"
  "unhandled (sendMessage_append c st s text' isUser' rd) = unhandled st"
  "database (sendMessage_append c st s text' isUser' rd) = database st"
  by (simp_all add: sendMessage_append_def Let_def appendMessage_def)

lemma sendMessage_call_fields:
  "isProcessing (sendMessage_call c st text' isUser' rd) = isProcessing st"
  "timers (sendMessage_call c st text' isUser' rd) = timers st"
  "returned (sendMessage_call c st text' isUser' rd) = returned st"
  "unhandled (sendMessage_call c st text' isUser' rd) = unhandled st"
  "database (sendMessage_call c st text' isUser' rd) = database st"
  "currentSession (sendMessage_call c st text' isUser' rd) \<noteq> None"
  by (simp_all add: sendMessage_call_def sendMessage_append_fields Let_def split: option.splits)

lemma sendMessage_call_tasks:
  "\<exists>t. tasks (sendMessage_call c st text' isUser' rd) = tasks st @ [t] \<and>
       generating t = (c \<noteq> UI)"
  by (simp add: sendMessage_call_def sendMessage_append_fields Let_def split: option.splits)

lemma sendMessage_call_active:
  "currentSession st = Some s \<Longrightarrow>
     sendMessage_call c st text' isUser' rd = sendMessage_append c st s text' isUser' rd"
  by (simp add: sendMessage_call_def)

lemma schedule_fields:
  "currentSession (schedule st text' isUser') = currentSession st"
  "isProcessing (schedule st text' isUser') = isProcessing st"
  "tasks (schedule st text' isUser') = tasks st"
  "returned (schedule st text' isUser') = returned st"
  "unhandled (schedule st text' isUser') = unhandled st"
  "database (schedule st text' isUser') = database st"
  by (simp_all add: schedule_def)

lemma schedule_timers:
  "timers (schedule st text' isUser') =
     (if isUser' \<and> \<not> isProcessing st then timers st @ [text'] else timers st)"
  by (simp add: schedule_def)

subsection \<open>Taking a suspended call out\<close>

lemma filter_take_drop:
  assumes "i < length ts"
  shows "filter P ts =
    filter P (take i ts) @ (if P (ts ! i) then [ts ! i] else []) @ filter P (drop (Suc i) ts)"
proof -
  have "filter P ts = filter P (take i ts @ ts ! i # drop (Suc i) ts)"
    using assms by (simp add: id_take_nth_drop [symmetric])
  then show ?thesis by simp
qed

lemma filter_remove_other:
  "i < length ts \<Longrightarrow> \<not> P (ts ! i) \<Longrightarrow> filter P (take i ts @ drop (Suc i) ts) = filter P ts"
  by (simp add: filter_take_drop [of i ts P])

lemma filter_remove_only:
  "i < length ts \<Longrightarrow> P (ts ! i) \<Longrightarrow> length (filter P ts) = 1 \<Longrightarrow>
     filter P (take i ts @ drop (Suc i) ts) = []"
  by (simp add: filter_take_drop [of i ts P])

lemma filter_only:
  "i < length ts \<Longrightarrow> P (ts ! i) \<Longrightarrow> length (filter P ts) = 1 \<Longrightarrow> filter P ts = [ts ! i]"
  by (simp add: filter_take_drop [of i ts P])

subsection \<open>Single flight\<close>

lemma sendMessage_call_generations:
  "c \<noteq> UI \<Longrightarrow> generations st = [] \<Longrightarrow>
     length (generations (sendMessage_call c st text' isUser' rd)) = 1"
  "generations (sendMessage_call UI st text' isUser' rd) = generations st"
  using sendMessage_call_tasks [of c st text' isUser' rd]
    sendMessage_call_tasks [of UI st text' isUser' rd]
  by (auto simp: generations_def)

lemma settle_generation:
  assumes "c \<noteq> UI" "generations st = []"
  shows "(\<not> isProcessing (settle c r st rd) \<and> generations (settle c r st rd) = []) \<or>
         (isProcessing (settle c r st rd) = isProcessing st \<and>
          length (generations (settle c r st rd)) = 1)"
  using assms sendMessage_call_generations(1) [of CatchBlock st apology False rd]
  by (cases c; cases r)
     (auto simp: generations_def catch_block_def sendMessage_call_fields)

lemma settle_ui:
  "isProcessing (settle UI r st rd) = isProcessing st"
  "tasks (settle UI r st rd) = tasks st"
  "timers (settle UI r st rd) = timers st"
  "currentSession (settle UI r st rd) = currentSession st"
  by simp_all

lemma resume_generation:
  assumes "generating t" "generations st = []"
  shows "(\<not> isProcessing (resume t net rd st) \<and> generations (resume t net rd st) = []) \<or>
         (isProcessing (resume t net rd st) = isProcessing st \<and>
          length (generations (resume t net rd st)) = 1)"
proof (cases t)
  case (Creating c text' isUser' session)
  then have c: "c \<noteq> UI" using assms by simp
  have gens: "generations (st\<lparr>database := db\<rparr>) = []" for db
    using assms by (simp add: generations_def)
  show ?thesis
    using settle_generation [OF c gens] assms(2)
    by (auto simp: Creating c generations_def sendMessage_append_fields
          split: prod.splits sum.splits option.splits)
next
  case (Writing c text' isUser' sessionId m)
  then have c: "c \<noteq> UI" using assms by simp
  have gens: "generations (st\<lparr>database := db\<rparr>) = []"
    "generations (schedule (st\<lparr>database := db\<rparr>) text' isUser') = []" for db
    using assms by (simp_all add: generations_def schedule_fields)
  have flag: "isProcessing (schedule (st\<lparr>database := db\<rparr>) text' isUser') = isProcessing st" for db
    by (simp add: schedule_fields)
  show ?thesis
    using settle_generation [OF c gens(1)] settle_generation [OF c gens(2)] flag
    by (auto simp: Writing split: prod.splits sum.splits option.splits)
next
  case (Searching userMessage)
  have waiting: "generations (st\<lparr>tasks := tasks st @ [Calling userMessage]\<rparr>) = [Calling userMessage]"
    using assms(2) by (simp add: generations_def)
  show ?thesis
    using assms(2) waiting
    by (simp add: Searching catch_block_def sendMessage_call_fields sendMessage_call_generations
          split: sum.splits list.splits)
next
  case (Calling userMessage)
  show ?thesis
    using assms(2)
    by (simp add: Calling catch_block_def sendMessage_call_fields sendMessage_call_generations
          split: sum.splits)
qed

lemma resume_other:
  assumes "\<not> generating t"
  shows "isProcessing (resume t net rd st) = isProcessing st"
    and "generations (resume t net rd st) = generations st"
  using assms
  by (cases t; auto simp: generations_def sendMessage_append_fields schedule_fields
        split: prod.splits sum.splits option.splits)+

lemma step_single_flight: "single_flight st \<Longrightarrow> single_flight (step e st)"
proof (cases e)
  case (CreateSession t rd)
  assume "single_flight st"
  then show ?thesis
    by (auto simp: CreateSession single_flight_def generations_def createNewSession_snd
          split: if_splits)
next
  case (SendMessage t u rd)
  assume "single_flight st"
  then show ?thesis
    by (auto simp: SendMessage single_flight_def sendMessage_call_generations
          sendMessage_call_fields split: if_splits)
next
  case TimerFires
  assume "single_flight st"
  then show ?thesis
    by (auto simp: TimerFires single_flight_def generations_def generateResponse_call_def
          split: list.splits)
next
  case (Resumes i net rd)
  assume sf: "single_flight st"
  show ?thesis
  proof (cases "i < length (tasks st)")
    case False
    then show ?thesis using sf by (simp add: Resumes)
  next
    case True
    define st0 where "st0 = st\<lparr>tasks := take i (tasks st) @ drop (Suc i) (tasks st)\<rparr>"
    have next_state: "step e st = resume (tasks st ! i) net rd st0"
      using True by (simp add: Resumes st0_def)
    have flag0: "isProcessing st0 = isProcessing st"
      by (simp add: st0_def)
    show ?thesis
    proof (cases "generating (tasks st ! i)")
      case False
      have "generations st0 = generations st"
        using True False
        by (simp add: st0_def generations_def filter_remove_other del: filter_append)
      then show ?thesis
        using sf resume_other [OF False, of net rd st0] flag0
        by (simp add: next_state single_flight_def)
    next
      case gen: True
      have some: "generations st \<noteq> []"
        using True gen by (auto simp: generations_def filter_empty_conv)
      then have busy: "isProcessing st" and one: "length (generations st) = 1"
        using sf by (auto simp: single_flight_def split: if_splits)
      have none: "generations st0 = []"
        using True gen one
        by (simp add: st0_def generations_def filter_remove_only del: filter_append)
      show ?thesis
        using resume_generation [OF gen none, of net rd] busy flag0
        by (auto simp: next_state single_flight_def)
    qed
  qed
next
  case (EngineChanges answer err)
  assume "single_flight st"
  then show ?thesis
    by (auto simp: EngineChanges single_flight_def generations_def split: if_splits)
qed

lemma exec_single_flight: "single_flight st \<Longrightarrow> single_flight (exec evs st)"
  by (induction evs arbitrary: st) (simp_all add: step_single_flight)

lemma initial_single_flight: "single_flight (initial db)"
  by (simp add: single_flight_def generations_def initial_def)

lemma reachable_single_flight: "single_flight (exec evs (initial db))"
  by (rule exec_single_flight [OF initial_single_flight])

subsection \<open>An active session\<close>

lemma settle_session: "currentSession st \<noteq> None \<Longrightarrow> currentSession (settle c r st rd) \<noteq> None"
  by (cases c; cases r) (simp_all add: catch_block_def sendMessage_call_fields del: not_None_eq)

lemma resume_session:
  "currentSession st \<noteq> None \<Longrightarrow> currentSession (resume t net rd st) \<noteq> None"
  by (cases t)
     (simp_all add: settle_session schedule_fields sendMessage_append_fields catch_block_def
        sendMessage_call_fields del: not_None_eq
        split: prod.splits sum.splits option.splits list.splits)

lemma step_has_session: "has_session st \<Longrightarrow> has_session (step e st)"
proof (cases e)
  case (CreateSession t rd)
  show ?thesis by (simp add: CreateSession has_session_def createNewSession_snd)
next
  case (SendMessage t u rd)
  show ?thesis by (simp add: SendMessage has_session_def sendMessage_call_fields)
next
  case TimerFires
  assume "has_session st"
  then show ?thesis
    by (auto simp: TimerFires has_session_def generateResponse_call_def split: list.splits)
next
  case (Resumes i net rd)
  assume "has_session st"
  then show ?thesis
    using resume_session [of "st\<lparr>tasks := take i (tasks st) @ drop (Suc i) (tasks st)\<rparr>"
        "tasks st ! i" net rd]
    by (auto simp: Resumes has_session_def simp del: not_None_eq)
next
  case (EngineChanges answer err)
  assume "has_session st"
  then show ?thesis by (auto simp: EngineChanges has_session_def)
qed

lemma exec_has_session: "has_session st \<Longrightarrow> has_session (exec evs st)"
  by (induction evs arbitrary: st) (simp_all add: step_has_session)

lemma reachable_has_session: "has_session (exec evs (initial db))"
  by (rule exec_has_session) (simp add: has_session_def initial_def)

lemma reachable_active:
  "i < length (tasks (exec evs (initial db))) \<Longrightarrow> currentSession (exec evs (initial db)) \<noteq> None"
  using reachable_has_session [of evs db] by (auto simp: has_session_def)

subsection \<open>What reaches the caller of \<open>sendMessage\<close>\<close>

lemma settle_returned: "c \<noteq> UI \<Longrightarrow> returned (settle c r st rd) = returned st"
  by (cases c; cases r) (simp_all add: catch_block_def sendMessage_call_fields)

lemma resume_returned: "generating t \<Longrightarrow> returned (resume t net rd st) = returned st"
  by (cases t)
     (auto simp: settle_returned schedule_fields sendMessage_append_fields catch_block_def
        sendMessage_call_fields split: prod.splits sum.splits option.splits list.splits)

lemma timer_returned: "returned (step TimerFires st) = returned st"
  by (simp add: generateResponse_call_def split: list.splits)

subsection \<open>Timers\<close>

lemma settle_timers: "timers (settle c r st rd) = timers st"
  by (cases c; cases r) (simp_all add: catch_block_def sendMessage_call_fields)

lemma resume_timers_busy: "isProcessing st \<Longrightarrow> timers (resume t net rd st) = timers st"
  by (cases t)
     (auto simp: settle_timers schedule_timers sendMessage_append_fields catch_block_def
        sendMessage_call_fields split: prod.splits sum.splits option.splits list.splits)

lemma step_timers_busy:
  "isProcessing st \<Longrightarrow> timers (step e st) = timers st \<or> timers (step e st) = tl (timers st)"
  by (cases e)
     (auto simp: createNewSession_snd sendMessage_call_fields generateResponse_call_def
        resume_timers_busy split: list.splits)

lemma resume_ui_write:
  "timers (resume (Writing UI text' True sessionId m) net rd st) =
     (if \<not> isProcessing st \<and>
         returned (resume (Writing UI text' True sessionId m) net rd st) = returned st @ [Inr m]
      then timers st @ [text'] else timers st)"
  by (auto simp: schedule_timers schedule_fields split: prod.splits sum.splits option.splits)

subsection \<open>A failing search\<close>

lemma resume_search_fails:
  "searchCompanyData (database st) userMessage = Inl e \<Longrightarrow> currentSession st = Some s \<Longrightarrow>
     resume (Searching userMessage) net rd st = sendMessage_append CatchBlock st s apology False rd"
  by (simp add: catch_block_def sendMessage_call_active)

lemma resume_search_empty:
  "searchCompanyData (database st) userMessage = Inr [] \<Longrightarrow>
     resume (Searching userMessage) net rd st = st\<lparr>tasks := tasks st @ [Calling userMessage]\<rparr>"
  by simp

lemma resume_catch_write:
  "currentSession (resume (Writing CatchBlock text' isUser' sessionId m) net rd st) = currentSession st"
  "\<not> isProcessing (resume (Writing CatchBlock text' isUser' sessionId m) net rd st)"
  "tasks (resume (Writing CatchBlock text' isUser' sessionId m) net rd st) = tasks st"
  by (auto simp: schedule_fields split: prod.splits sum.splits option.splits)

subsection \<open>Timestamps\<close>

lemma good_update:
  "good (st\<lparr>database := db\<rparr>) ds = good st ds"
  "good (st\<lparr>tasks := ts\<rparr>) ds = good st ds"
  "good (st\<lparr>isProcessing := b\<rparr>) ds = good st ds"
  "good (st\<lparr>returned := rs\<rparr>) ds = good st ds"
  "good (st\<lparr>unhandled := es\<rparr>) ds = good st ds"
  "good (schedule st text' isUser') ds = good st ds"
  by (simp_all add: good_def schedule_fields)

lemma good_suffix: "good st (xs @ ys) \<Longrightarrow> good st ys"
  by (auto simp: good_def sorted_append)

lemma sendMessage_append_good:
  assumes "good st (send_dates rd @ ds)" "currentSession st = Some s"
  shows "good (sendMessage_append c st s text' isUser' rd) ds"
proof -
  from assms have sorted: "sorted ds"
    and order: "s_timestamp rd \<le> s_updatedAt rd"
    and later: "\<forall>d\<in>set ds. s_updatedAt rd \<le> d"
    and old: "session_ok s" "updatedAt s \<le> s_timestamp rd"
    by (auto simp: good_def send_dates_def sorted_append)
  have "session_ok (appendMessage s (newMessage text' isUser' rd) rd)"
    using old order
    by (fastforce simp: session_ok_def appendMessage_def newMessage_def list_all_iff)
  moreover have "updatedAt (appendMessage s (newMessage text' isUser' rd) rd) = s_updatedAt rd"
    by (simp add: appendMessage_def)
  ultimately show ?thesis
    using sorted later by (simp add: good_def sendMessage_append_fields)
qed

lemma sendMessage_call_good:
  assumes "good st (send_dates rd @ ds)"
  shows "good (sendMessage_call c st text' isUser' rd) ds"
proof (cases "currentSession st")
  case None
  have "session_ok (newSession None (s_create rd))"
    "updatedAt (newSession None (s_create rd)) = c_date (s_create rd)"
    by (simp_all add: session_ok_def newSession_def Let_def)
  then show ?thesis
    using assms
    by (auto simp: None good_def sendMessage_call_def Let_def send_dates_def sorted_append)
next
  case (Some s)
  then show ?thesis
    using assms by (simp add: sendMessage_call_active sendMessage_append_good)
qed

lemma settle_good:
  assumes "good st (send_dates rd @ ds)"
  shows "good (settle c r st rd) ds"
  using assms good_suffix [OF assms]
  by (cases c; cases r) (simp_all add: good_update catch_block_def sendMessage_call_good)

lemma resume_good:
  assumes "good st (send_dates rd @ ds)"
  shows "good (resume t net rd st) ds"
proof (cases t)
  case (Creating c text' isUser' session)
  have "good (settle c r (st\<lparr>database := db\<rparr>) rd) ds" for r db
    using assms by (simp add: settle_good good_update)
  moreover have "good (sendMessage_append c (st\<lparr>database := db\<rparr>) s text' isUser' rd) ds"
    if "currentSession st = Some s" for s db
    using assms that by (simp add: sendMessage_append_good good_update)
  ultimately show ?thesis
    by (simp add: Creating split: prod.splits sum.splits option.splits)
next
  case (Writing c text' isUser' sessionId m)
  have "good (settle c r (st\<lparr>database := db\<rparr>) rd) ds" for r db
    using assms by (simp add: settle_good good_update)
  moreover have "good (settle c r (schedule (st\<lparr>database := db\<rparr>) text' isUser') rd) ds" for r db
    using assms by (simp add: settle_good good_update)
  ultimately show ?thesis
    by (simp add: Writing split: prod.splits sum.splits option.splits)
next
  case (Searching userMessage)
  show ?thesis
    using assms good_suffix [OF assms]
    by (simp add: Searching good_update catch_block_def sendMessage_call_good
          split: sum.splits list.splits)
next
  case (Calling userMessage)
  show ?thesis
    using assms
    by (simp add: Calling catch_block_def sendMessage_call_good split: sum.splits)
qed

lemma step_good: "good st (dates_of e @ ds) \<Longrightarrow> good (step e st) ds"
proof (cases e)
  case (CreateSession t rd)
  assume "good st (dates_of e @ ds)"
  then show ?thesis
    by (auto simp: CreateSession good_def createNewSession_snd newSession_def Let_def
          session_ok_def)
next
  case (SendMessage t u rd)
  assume "good st (dates_of e @ ds)"
  then show ?thesis by (simp add: SendMessage sendMessage_call_good)
next
  case TimerFires
  assume "good st (dates_of e @ ds)"
  then show ?thesis
    by (auto simp: TimerFires good_def generateResponse_call_def split: list.splits)
next
  case (Resumes i net rd)
  assume g: "good st (dates_of e @ ds)"
  have "good (st\<lparr>tasks := ts\<rparr>) (send_dates rd @ ds)" for ts
    using g by (simp add: Resumes good_update)
  then show ?thesis
    using g good_suffix [of st "send_dates rd" ds] by (simp add: Resumes resume_good)
next
  case (EngineChanges answer err)
  assume "good st (dates_of e @ ds)"
  then show ?thesis by (simp add: EngineChanges good_def)
qed

lemma exec_good: "good st (concat (map dates_of evs)) \<Longrightarrow> good (exec evs st) []"
  by (induction evs arbitrary: st) (simp_all add: step_good)

subsection \<open>The remote calls\<close>

lemma handleApiError_failure:
  "\<not> success (handleApiError e) \<and> (\<exists>d. error (handleApiError e) = Some d \<and> d \<noteq> [])"
  by (cases e rule: handleApiError.cases) simp_all

lemma remote_call_total:
  "\<exists>r. try_catch (remote_body net okMessage) (\<lambda>e. Inr (handleApiError e)) = Inr r \<and>
       (call_fails net \<longrightarrow> \<not> success r \<and> (\<exists>d. error r = Some d \<and> d \<noteq> []))"
  using handleApiError_failure
  by (auto simp: try_catch_def remote_body_def checkNetworkConnection_def no_connection_def
        call_fails_def split: sum.splits option.splits)

subsection \<open>A call and its resumption, with nothing in between\<close>

text \<open>
  On an active session, the call of \<open>sendMessage\<close> by the user interface followed at
  once by its resumption is \<open>sendMessage\<close> run from call to completion, and what the
  caller receives is its result.
\<close>

lemma sendMessage_as_events:
  assumes "currentSession st = Some s"
  shows "step (Resumes (length (tasks st)) net rd') (step (SendMessage text' isUser' rd) st) =
           (snd (sendMessage st text' isUser' rd))
             \<lparr>returned := returned st @ [fst (sendMessage st text' isUser' rd)]\<rparr>"
proof -
  let ?m = "newMessage text' isUser' rd"
  let ?s = "appendMessage s ?m rd"
  let ?st = "st\<lparr>currentSession := Some ?s\<rparr>"
  have called: "step (SendMessage text' isUser' rd) st =
      ?st\<lparr>tasks := tasks st @ [Writing UI text' isUser' (session_id ?s) ?m]\<rparr>"
    using assms by (simp add: sendMessage_call_def sendMessage_append_def Let_def)
  have resumed: "step (Resumes (length (tasks st)) net rd')
      (?st\<lparr>tasks := tasks st @ [Writing UI text' isUser' (session_id ?s) ?m]\<rparr>) =
      resume (Writing UI text' isUser' (session_id ?s) ?m) net rd' ?st"
    by simp
  have run: "sendMessage st text' isUser' rd =
      (case persist (database st) ?s ?m of
         (Inl e, db) \<Rightarrow> (Inl e, ?st\<lparr>database := db\<rparr>)
       | (Inr _, db) \<Rightarrow> (Inr ?m, schedule (?st\<lparr>database := db\<rparr>) text' isUser'))"
    using assms by (simp add: sendMessage_def ensureSession_def Let_def)
  show ?thesis
    unfolding called resumed run
    by (simp add: persist_def schedule_def split: prod.splits sum.splits)
qed

subsection \<open>The sample runs\<close>

lemma first_turn_run:
  "isProcessing (exec first_turn (initial (open_db no_match)))"
  "tasks (exec first_turn (initial (open_db no_match))) = [Searching ''hello'']"
  "timers (exec first_turn (initial (open_db no_match))) = []"
  "isProcessing (exec first_turn (initial (open_db failing_search)))"
  "tasks (exec first_turn (initial (open_db failing_search))) = [Searching ''hello'']"
  "map_option (map msg_text \<circ> messages)
     (currentSession (exec first_turn (initial (open_db failing_search)))) = Some [''hello'']"
  "searchCompanyData (database (exec first_turn (initial (open_db failing_search)))) ''hello''
     = Inl (Error ''disk I/O error'')"
  "searchCompanyData (database (exec first_turn (initial (open_db no_match)))) ''hello'' = Inr []"
  by (simp_all add: model_defs)

lemma early_run:
  "isProcessing (exec early_pending (initial (open_db no_match)))"
  "tasks (exec early_pending (initial (open_db no_match)))
     = [Calling ''hello'',
        Writing UI ''what are your prices'' True
          (session_id (newSession None (s_create (reads_at 1000))))
          (newMessage ''what are your prices'' True (reads_at 2000))]"
  "timers (exec early_pending (initial (open_db no_match))) = []"
  "timers (step (Resumes 1 offline (reads_at 2001)) (exec early_pending (initial (open_db no_match)))) = []"
  "map_option (map isUser \<circ> messages)
     (currentSession (exec answered_early (initial (open_db no_match)))) = Some [True, True, False]"
  "map (map_sum id msg_text) (returned (exec answered_early (initial (open_db no_match))))
     = [Inr ''hello'', Inr ''what are your prices'']"
  "timers (exec answered_early (initial (open_db no_match))) = []"
  "tasks (exec answered_early (initial (open_db no_match))) = []"
  "\<not> isProcessing (exec answered_early (initial (open_db no_match)))"
  by (simp_all add: model_defs hello_greets)

lemma late_run:
  "\<not> isProcessing (exec late_pending (initial (open_db no_match)))"
  "tasks (exec late_pending (initial (open_db no_match)))
     = [Writing UI ''what are your prices'' True
          (session_id (newSession None (s_create (reads_at 1000))))
          (newMessage ''what are your prices'' True (reads_at 2000))]"
  "timers (exec late_pending (initial (open_db no_match))) = []"
  "returned (step (Resumes 0 offline (reads_at 2002)) (exec late_pending (initial (open_db no_match))))
     = returned (exec late_pending (initial (open_db no_match)))
       @ [Inr (newMessage ''what are your prices'' True (reads_at 2000))]"
  "timers (exec answered_late (initial (open_db no_match))) = [''what are your prices'']"
  "map_option (map timestamp \<circ> messages)
     (currentSession (exec answered_late (initial (open_db no_match)))) = Some [1001, 1600, 2000]"
  "map_option updatedAt (currentSession (exec answered_late (initial (open_db no_match)))) = Some 2000"
  "isProcessing (exec late_sent (initial (open_db no_match)))"
  "map_option (map isUser \<circ> messages)
     (currentSession (exec answered_late (initial (open_db no_match)))) = Some [True, False, True]"
  by (simp_all add: model_defs hello_greets)

lemma generation_runs:
  "map_option (map msg_text \<circ> messages)
     (currentSession (exec generation_run (initial (open_db failing_search))))
     = Some [''hello'', apology]"
  "map_option (map msg_text \<circ> messages)
     (currentSession (exec generation_run (initial (open_db no_match))))
     = Some [''hello'', ''Our plans start at 10 dollars.'']"
  "map_option (map isUser \<circ> messages)
     (currentSession (exec generation_run (initial (open_db failing_search)))) = Some [True, False]"
  "tasks (exec search_resumed (initial (open_db failing_search)))
     = [Writing CatchBlock apology False (session_id (newSession None (s_create (reads_at 1000))))
          (newMessage apology False (reads_at 3000))]"
  "isProcessing (exec search_resumed (initial (open_db failing_search)))"
  "tasks (exec search_resumed (initial (open_db no_match))) = [Calling ''hello'']"
  "\<not> isProcessing (exec generation_run (initial (open_db failing_search)))"
  "\<not> isProcessing (exec generation_run (initial (open_db no_match)))"
  "tasks (exec generation_run (initial (open_db failing_search))) = []"
  "tasks (exec generation_run (initial (open_db no_match))) = []"
  "map (map_sum id msg_text) (returned (exec generation_run (initial (open_db failing_search))))
     = [Inr ''hello'']"
  "unhandled (exec generation_run (initial (open_db failing_search))) = []"
  "tasks (step (Resumes 0 online (reads_at 3001))
      (exec search_resumed (initial (open_db failing_search)))) = []"
  by (simp_all add: model_defs)

lemma two_timers_run:
  "\<not> isProcessing (exec both_scheduled (initial (open_db no_match)))"
  "timers (exec both_scheduled (initial (open_db no_match))) = [''hello'', ''thanks'']"
  "tasks (exec both_scheduled (initial (open_db no_match))) = []"
  "isProcessing (exec two_timers (initial (open_db no_match)))"
  "timers (exec two_timers (initial (open_db no_match))) = []"
  "tasks (exec two_timers (initial (open_db no_match))) = [Searching ''hello'']"
  by (simp_all add: model_defs)

lemma set_back_session:
  "map_option (map timestamp \<circ> messages)
     (currentSession (exec set_back_run (initial (open_db no_match)))) = Some [20]"
  "map_option updatedAt (currentSession (exec set_back_run (initial (open_db no_match)))) = Some 15"
  by (simp_all add: model_defs)

section \<open>The claims\<close>

subsection \<open>C1: a local match decides the reply\<close>

text \<open>
  Claim C1. Whenever the search of the local store returns at least one record for the
  user message, the response computed by \<open>generateResponse\<close> has the content of the first
  record as its text, confidence 0.8, source \<open>database\<close> (the provenance "local") and
  the keywords of that record as related topics, whatever the network does.
\<close>

theorem local_match_reply:
  "searchCompanyData db userMessage = Inr (bestMatch # others) \<Longrightarrow>
   resolveResponse db net userMessage =
     Inr \<lparr>resp_text = content bestMatch, confidence = 8 / 10, source = Database,
          relatedTopics = Some (rec_keywords bestMatch)\<rparr>"
  by (simp add: resolveResponse_def)

theorem local_match_reply_witness:
  "searchCompanyData (open_db support_match) ''support'' = Inr [support_policy] \<and>
   resolveResponse (open_db support_match) online ''support'' =
     Inr \<lparr>resp_text = content support_policy, confidence = 8 / 10, source = Database,
          relatedTopics = Some [''support'', ''help'', ''customer service'', ''24/7'', ''response time'']\<rparr>"
proof -
  have found: "searchCompanyData (open_db support_match) ''support'' = Inr (support_policy # [])"
    by (simp add: searchCompanyData_def open_db_def support_match_def)
  show ?thesis
    using found local_match_reply [OF found, of online]
    by (simp add: support_policy_def)
qed

subsection \<open>C2: single flight\<close>

text \<open>
  Claim C2, as stated: when a second user message is sent while the generation for the
  first is running, the generation for the second is scheduled after the flag of the
  first is cleared. It need not be scheduled at all. Line 123 reads the flag when the
  second call resumes from its writes; in the run below that happens while the first
  generation still waits for the remote call, so the call returns its message and sets
  no timer. When everything has run the session holds the two user turns and one
  assistant turn, no timer is pending, nothing is suspended and the flag is clear: no
  generation was or will be scheduled for the second message.
\<close>

theorem second_turn_dropped_counterexample:
  "isProcessing (exec early_pending (initial (open_db no_match))) \<and>
   timers (step (Resumes 1 offline (reads_at 2001))
            (exec early_pending (initial (open_db no_match)))) = [] \<and>
   map (map_sum id msg_text) (returned (exec answered_early (initial (open_db no_match))))
     = [Inr ''hello'', Inr ''what are your prices''] \<and>
   map_option (map isUser \<circ> messages)
     (currentSession (exec answered_early (initial (open_db no_match)))) = Some [True, True, False] \<and>
   timers (exec answered_early (initial (open_db no_match))) = [] \<and>
   tasks (exec answered_early (initial (open_db no_match))) = [] \<and>
   \<not> isProcessing (exec answered_early (initial (open_db no_match)))"
  using early_run by simp

text \<open>
  Claim C2, amended. In every state the service reaches from its construction by calls
  of \<open>createNewSession\<close> and \<open>sendMessage\<close>, timers firing, suspended calls resuming
  and the storage engine changing its answers (\<open>cleanup\<close>, which also writes the flag,
  apart):
  \<^item> at most one generation is running, and a running generation holds the flag;
  \<^item> while the flag is set no event adds a timer (the pending timers stay, or the oldest
    fires);
  \<^item> when a user-turn \<open>sendMessage\<close> resumes from its writes, it schedules the generation
    for its message exactly if the flag is clear at that moment and the call returns its
    message; so for a message sent while a generation is running, a generation is
    scheduled only after the flag has been cleared, and none at all if the call reaches
    line 123 before that.
\<close>

theorem single_flight_scheduling:
  assumes "st = exec evs (initial db)"
  shows "length (generations st) \<le> 1 \<and>
    (generations st \<noteq> [] \<longrightarrow> isProcessing st) \<and>
    (isProcessing st \<longrightarrow> timers (step e st) = timers st \<or> timers (step e st) = tl (timers st)) \<and>
    (i < length (tasks st) \<and> tasks st ! i = Writing UI text' True sessionId m \<longrightarrow>
       timers (step (Resumes i net rd) st) =
         (if \<not> isProcessing st \<and> returned (step (Resumes i net rd) st) = returned st @ [Inr m]
          then timers st @ [text'] else timers st))"
proof -
  have "single_flight st"
    unfolding assms by (rule reachable_single_flight)
  then have "length (generations st) \<le> 1" "generations st \<noteq> [] \<longrightarrow> isProcessing st"
    by (auto simp: single_flight_def split: if_splits)
  moreover have "isProcessing st \<longrightarrow>
      timers (step e st) = timers st \<or> timers (step e st) = tl (timers st)"
    using step_timers_busy [of st e] by blast
  moreover have "timers (step (Resumes i net rd) st) =
         (if \<not> isProcessing st \<and> returned (step (Resumes i net rd) st) = returned st @ [Inr m]
          then timers st @ [text'] else timers st)"
    if "i < length (tasks st)" "tasks st ! i = Writing UI text' True sessionId m"
    using that
      resume_ui_write [of text' sessionId m net rd
        "st\<lparr>tasks := take i (tasks st) @ drop (Suc i) (tasks st)\<rparr>"]
    by simp
  ultimately show ?thesis by blast
qed

theorem single_flight_scheduling_witness:
  "generations (exec early_pending (initial (open_db no_match))) = [Calling ''hello''] \<and>
   isProcessing (exec early_pending (initial (open_db no_match))) \<and>
   timers (step (Resumes 1 offline (reads_at 2001))
            (exec early_pending (initial (open_db no_match)))) = [] \<and>
   isProcessing (exec late_sent (initial (open_db no_match))) \<and>
   \<not> isProcessing (exec late_pending (initial (open_db no_match))) \<and>
   tasks (exec late_pending (initial (open_db no_match))) ! 0
     = Writing UI ''what are your prices'' True
         (session_id (newSession None (s_create (reads_at 1000))))
         (newMessage ''what are your prices'' True (reads_at 2000)) \<and>
   timers (step (Resumes 0 offline (reads_at 2002))
            (exec late_pending (initial (open_db no_match)))) = [''what are your prices'']"
proof -
  have busy: "isProcessing (exec early_pending (initial (open_db no_match)))"
    and suspended: "generations (exec early_pending (initial (open_db no_match))) = [Calling ''hello'']"
    using early_run(1,2) by (simp_all add: generations_def)
  have idle: "\<not> isProcessing (exec late_pending (initial (open_db no_match)))"
    and waiting: "0 < length (tasks (exec late_pending (initial (open_db no_match))))"
      "tasks (exec late_pending (initial (open_db no_match))) ! 0
        = Writing UI ''what are your prices'' True
            (session_id (newSession None (s_create (reads_at 1000))))
            (newMessage ''what are your prices'' True (reads_at 2000))"
    and returns: "returned (step (Resumes 0 offline (reads_at 2002))
          (exec late_pending (initial (open_db no_match))))
        = returned (exec late_pending (initial (open_db no_match)))
          @ [Inr (newMessage ''what are your prices'' True (reads_at 2000))]"
    and pending: "timers (exec late_pending (initial (open_db no_match))) = []"
      "timers (exec early_pending (initial (open_db no_match))) = []"
    using late_run(1,2,3,4) early_run(3) by simp_all
  have kept: "timers (step (Resumes 1 offline (reads_at 2001))
      (exec early_pending (initial (open_db no_match)))) = []"
    using busy pending(2)
      single_flight_scheduling [where evs = early_pending and db = "open_db no_match"
        and e = "Resumes 1 offline (reads_at 2001)", OF refl]
    by auto
  have scheduled: "timers (step (Resumes 0 offline (reads_at 2002))
      (exec late_pending (initial (open_db no_match)))) = [''what are your prices'']"
    using idle waiting returns pending(1)
      single_flight_scheduling [where evs = late_pending and db = "open_db no_match"
        and i = 0 and text' = "''what are your prices''"
        and sessionId = "session_id (newSession None (s_create (reads_at 1000)))"
        and m = "newMessage ''what are your prices'' True (reads_at 2000)"
        and net = offline and rd = "reads_at 2002", OF refl]
    by simp
  show ?thesis
    using busy suspended late_run(8) idle waiting(2) kept scheduled by simp
qed

subsection \<open>C3: a failure in the pipeline\<close>

text \<open>
  Claim C3. Of the three stages of the pipeline only the local search can throw: the
  remote call returns a value in every case (lemma \<open>remote_call_total\<close>) and the
  offline generator is a total function. In every state the service reaches from its
  construction, when the search of the running generation ends by throwing:
  \<^item> there is an active session, and the resumption appends exactly one message to it,
    the assistant message with the fixed apology text, whose writes the generation then
    waits for in its \<open>catch\<close> block; nothing is returned or thrown to a caller of
    \<open>sendMessage\<close>, and nothing leaves \<open>generateResponse\<close>;
  \<^item> when that wait ends, whatever the writes answered, the generation ends: the session
    is as it was (no second reply), no generation is running and the flag is clear;
  \<^item> no step of a generation, and no timer firing, adds to what the callers of
    \<open>sendMessage\<close> have received; and the timer firing leaves the session as it is.
  So the user turn whose generation failed receives exactly one assistant reply turn,
  the apology.
\<close>

theorem search_failure_apology:
  assumes "st = exec evs (initial db)" "i < length (tasks st)"
  shows "(tasks st ! i = Searching userMessage \<and>
          searchCompanyData (database st) userMessage = Inl e \<longrightarrow>
            (\<exists>s. currentSession st = Some s \<and>
                 currentSession (step (Resumes i net rd) st) =
                   Some (appendMessage s (newMessage apology False rd) rd) \<and>
                 generations (step (Resumes i net rd) st) =
                   [Writing CatchBlock apology False (session_id s) (newMessage apology False rd)]) \<and>
            returned (step (Resumes i net rd) st) = returned st \<and>
            unhandled (step (Resumes i net rd) st) = unhandled st) \<and>
         (tasks st ! i = Writing CatchBlock text' isUser' sessionId m \<longrightarrow>
            currentSession (step (Resumes i net rd) st) = currentSession st \<and>
            generations (step (Resumes i net rd) st) = [] \<and>
            \<not> isProcessing (step (Resumes i net rd) st) \<and>
            returned (step (Resumes i net rd) st) = returned st) \<and>
         (generating (tasks st ! i) \<longrightarrow> returned (step (Resumes i net rd) st) = returned st) \<and>
         returned (step TimerFires st) = returned st \<and>
         currentSession (step TimerFires st) = currentSession st"
proof -
  define st0 where "st0 = st\<lparr>tasks := take i (tasks st) @ drop (Suc i) (tasks st)\<rparr>"
  have next_state: "step (Resumes i net rd) st = resume (tasks st ! i) net rd st0"
    using assms(2) by (simp add: st0_def)
  have sf: "single_flight st"
    unfolding assms(1) by (rule reachable_single_flight)
  obtain s where s: "currentSession st = Some s"
    using reachable_active [of i evs db] assms by auto
  have fields: "currentSession st0 = Some s" "returned st0 = returned st"
    "unhandled st0 = unhandled st" "database st0 = database st"
    using s by (simp_all add: st0_def)
  have alone: "generations st0 = []" if "generating (tasks st ! i)"
  proof -
    have "generations st \<noteq> []"
      using that assms(2) by (auto simp: generations_def filter_empty_conv)
    then have "length (generations st) = 1"
      using sf by (auto simp: single_flight_def split: if_splits)
    then show ?thesis
      using that assms(2)
      by (simp add: st0_def generations_def filter_remove_only del: filter_append)
  qed
  have search: "(\<exists>s. currentSession st = Some s \<and>
                 currentSession (step (Resumes i net rd) st) =
                   Some (appendMessage s (newMessage apology False rd) rd) \<and>
                 generations (step (Resumes i net rd) st) =
                   [Writing CatchBlock apology False (session_id s) (newMessage apology False rd)]) \<and>
            returned (step (Resumes i net rd) st) = returned st \<and>
            unhandled (step (Resumes i net rd) st) = unhandled st"
    if t: "tasks st ! i = Searching userMessage"
      and fails: "searchCompanyData (database st) userMessage = Inl e"
  proof -
    have "resume (Searching userMessage) net rd st0 =
        sendMessage_append CatchBlock st0 s apology False rd"
      using fails fields by (intro resume_search_fails) simp_all
    then have resumed: "step (Resumes i net rd) st =
        sendMessage_append CatchBlock st0 s apology False rd"
      by (simp only: next_state t)
    have "generations st0 = []"
      using alone t by simp
    then show ?thesis
      unfolding resumed
      using s fields by (simp add: sendMessage_append_fields generations_def)
  qed
  have written: "currentSession (step (Resumes i net rd) st) = currentSession st \<and>
            generations (step (Resumes i net rd) st) = [] \<and>
            \<not> isProcessing (step (Resumes i net rd) st) \<and>
            returned (step (Resumes i net rd) st) = returned st"
    if t: "tasks st ! i = Writing CatchBlock text' isUser' sessionId m"
  proof -
    have resumed: "step (Resumes i net rd) st =
        resume (Writing CatchBlock text' isUser' sessionId m) net rd st0"
      by (simp only: next_state t)
    have "generations st0 = []"
      using alone t by simp
    then show ?thesis
      unfolding resumed
      using s fields resume_catch_write [of text' isUser' sessionId m net rd st0]
        resume_returned [of "Writing CatchBlock text' isUser' sessionId m" net rd st0]
      by (simp add: generations_def del: resume.simps)
  qed
  have quiet: "returned (step (Resumes i net rd) st) = returned st"
    if "generating (tasks st ! i)"
    unfolding next_state using that fields by (simp add: resume_returned)
  have timer: "currentSession (step TimerFires st) = currentSession st"
    by (simp add: generateResponse_call_def split: list.splits)
  show ?thesis
    using search written quiet timer timer_returned [of st] by blast
qed

theorem search_failure_apology_witness:
  "tasks (exec first_turn (initial (open_db failing_search))) ! 0 = Searching ''hello'' \<and>
   searchCompanyData (database (exec first_turn (initial (open_db failing_search)))) ''hello''
     = Inl (Error ''disk I/O error'') \<and>
   map_option (map msg_text \<circ> messages)
     (currentSession (exec first_turn (initial (open_db failing_search)))) = Some [''hello''] \<and>
   map_option (map msg_text \<circ> messages)
     (currentSession (step (Resumes 0 online (reads_at 3000))
        (exec first_turn (initial (open_db failing_search))))) = Some [''hello'', apology] \<and>
   returned (step (Resumes 0 online (reads_at 3000))
       (exec first_turn (initial (open_db failing_search))))
     = returned (exec first_turn (initial (open_db failing_search))) \<and>
   tasks (exec search_resumed (initial (open_db failing_search))) ! 0
     = Writing CatchBlock apology False (session_id (newSession None (s_create (reads_at 1000))))
         (newMessage apology False (reads_at 3000)) \<and>
   currentSession (step (Resumes 0 online (reads_at 3001))
       (exec search_resumed (initial (open_db failing_search))))
     = currentSession (exec search_resumed (initial (open_db failing_search))) \<and>
   \<not> isProcessing (step (Resumes 0 online (reads_at 3001))
       (exec search_resumed (initial (open_db failing_search)))) \<and>
   map_option (map isUser \<circ> messages)
     (currentSession (exec generation_run (initial (open_db failing_search)))) = Some [True, False]"
proof -
  let ?st = "exec first_turn (initial (open_db failing_search))"
  let ?st' = "exec search_resumed (initial (open_db failing_search))"
  have searching: "0 < length (tasks ?st)" "tasks ?st ! 0 = Searching ''hello''"
    and fails: "searchCompanyData (database ?st) ''hello'' = Inl (Error ''disk I/O error'')"
    and before: "map_option (map msg_text \<circ> messages) (currentSession ?st) = Some [''hello'']"
    using first_turn_run(5,6,7) by simp_all
  have writing: "0 < length (tasks ?st')"
    "tasks ?st' ! 0 = Writing CatchBlock apology False
        (session_id (newSession None (s_create (reads_at 1000))))
        (newMessage apology False (reads_at 3000))"
    using generation_runs(4) by simp_all
  have resumed: "?st' = step (Resumes 0 online (reads_at 3000)) ?st"
    by (simp add: search_resumed_def exec_append)
  from search_failure_apology [where evs = first_turn and db = "open_db failing_search"
      and i = 0 and userMessage = "''hello''" and e = "Error ''disk I/O error''"
      and net = online and rd = "reads_at 3000", OF refl searching(1)] searching(2) fails
  obtain s where s: "currentSession ?st = Some s"
    "currentSession (step (Resumes 0 online (reads_at 3000)) ?st) =
       Some (appendMessage s (newMessage apology False (reads_at 3000)) (reads_at 3000))"
    and quiet: "returned (step (Resumes 0 online (reads_at 3000)) ?st) = returned ?st"
    by blast
  have texts: "map_option (map msg_text \<circ> messages)
      (currentSession (step (Resumes 0 online (reads_at 3000)) ?st)) = Some [''hello'', apology]"
    using before s by (simp add: appendMessage_def newMessage_def)
  have ended: "currentSession (step (Resumes 0 online (reads_at 3001)) ?st') = currentSession ?st'"
    "\<not> isProcessing (step (Resumes 0 online (reads_at 3001)) ?st')"
    using search_failure_apology [where evs = search_resumed and db = "open_db failing_search"
        and i = 0 and text' = apology and isUser' = False
        and sessionId = "session_id (newSession None (s_create (reads_at 1000)))"
        and m = "newMessage apology False (reads_at 3000)"
        and net = online and rd = "reads_at 3001", OF refl writing(1)] writing(2)
    by blast+
  show ?thesis
    using searching(2) fails before texts quiet writing(2) ended generation_runs(3)
    by simp
qed

subsection \<open>C4: a failing search\<close>

text \<open>
  Claim C4, as stated: a search that throws is treated as "no results" and the resolver
  goes on to the remote stage. It is not. In the same run, with the network up and the
  remote service answering, the generation on a store whose search throws replies with
  the apology, and on a store whose search finds nothing with the remote answer.
\<close>

theorem search_failure_counterexample:
  "map_option (map msg_text \<circ> messages)
     (currentSession (exec generation_run (initial (open_db failing_search))))
     = Some [''hello'', apology] \<and>
   map_option (map msg_text \<circ> messages)
     (currentSession (exec generation_run (initial (open_db no_match))))
     = Some [''hello'', ''Our plans start at 10 dollars.'']"
  using generation_runs(1,2) by simp

text \<open>
  Claim C4, amended. In every state the service reaches from its construction, when
  the search of the running generation ends by throwing, the resolver does not go on to
  the remote stage or the offline stage: no remote call is started, the message
  appended to the active session is the assistant message with the fixed apology text,
  and the generation waits for the writes of that message in its \<open>catch\<close> block. The
  error of the search is swallowed: nothing is returned or thrown to a caller of
  \<open>sendMessage\<close>, and nothing leaves \<open>generateResponse\<close>. When the search ends with no
  record, by contrast, nothing is appended and the remote call is started.
\<close>

theorem search_failure_skips_fallback:
  assumes "st = exec evs (initial db)" "i < length (tasks st)"
    "tasks st ! i = Searching userMessage"
  shows "(searchCompanyData (database st) userMessage = Inl e \<longrightarrow>
            Calling userMessage \<notin> set (tasks (step (Resumes i net rd) st)) \<and>
            map_option (last \<circ> messages) (currentSession (step (Resumes i net rd) st))
              = Some (newMessage apology False rd) \<and>
            map_option (butlast \<circ> messages) (currentSession (step (Resumes i net rd) st))
              = map_option messages (currentSession st) \<and>
            (\<exists>sessionId. generations (step (Resumes i net rd) st) =
               [Writing CatchBlock apology False sessionId (newMessage apology False rd)]) \<and>
            returned (step (Resumes i net rd) st) = returned st \<and>
            unhandled (step (Resumes i net rd) st) = unhandled st) \<and>
         (searchCompanyData (database st) userMessage = Inr [] \<longrightarrow>
            currentSession (step (Resumes i net rd) st) = currentSession st \<and>
            generations (step (Resumes i net rd) st) = [Calling userMessage])"
proof -
  define st0 where "st0 = st\<lparr>tasks := take i (tasks st) @ drop (Suc i) (tasks st)\<rparr>"
  have next_state: "step (Resumes i net rd) st = resume (Searching userMessage) net rd st0"
    using assms(2,3) by (simp add: st0_def)
  have sf: "single_flight st"
    unfolding assms(1) by (rule reachable_single_flight)
  obtain s where s: "currentSession st = Some s"
    using reachable_active [of i evs db] assms by auto
  have fields: "currentSession st0 = Some s" "returned st0 = returned st"
    "unhandled st0 = unhandled st" "database st0 = database st"
    using s by (simp_all add: st0_def)
  have "generating (tasks st ! i)"
    using assms(3) by simp
  then have "generations st \<noteq> []"
    using nth_mem [OF assms(2)] by (auto simp: generations_def filter_empty_conv)
  then have "length (generations st) = 1"
    using sf by (auto simp: single_flight_def split: if_splits)
  then have alone: "generations st0 = []"
    using assms(2,3) by (simp add: st0_def generations_def filter_remove_only del: filter_append)
  have fails: "Calling userMessage \<notin> set (tasks (step (Resumes i net rd) st)) \<and>
            map_option (last \<circ> messages) (currentSession (step (Resumes i net rd) st))
              = Some (newMessage apology False rd) \<and>
            map_option (butlast \<circ> messages) (currentSession (step (Resumes i net rd) st))
              = map_option messages (currentSession st) \<and>
            (\<exists>sessionId. generations (step (Resumes i net rd) st) =
               [Writing CatchBlock apology False sessionId (newMessage apology False rd)]) \<and>
            returned (step (Resumes i net rd) st) = returned st \<and>
            unhandled (step (Resumes i net rd) st) = unhandled st"
    if "searchCompanyData (database st) userMessage = Inl e"
  proof -
    have "resume (Searching userMessage) net rd st0 =
        sendMessage_append CatchBlock st0 s apology False rd"
      using that fields by (intro resume_search_fails) simp_all
    then have resumed: "step (Resumes i net rd) st =
        sendMessage_append CatchBlock st0 s apology False rd"
      by (simp only: next_state)
    have "Calling userMessage \<notin> set (tasks st0)"
      using alone by (auto simp: generations_def filter_empty_conv)
    then show ?thesis
      unfolding resumed
      using s fields alone
      by (simp add: sendMessage_append_fields generations_def appendMessage_def)
  qed
  have empty: "currentSession (step (Resumes i net rd) st) = currentSession st \<and>
            generations (step (Resumes i net rd) st) = [Calling userMessage]"
    if "searchCompanyData (database st) userMessage = Inr []"
  proof -
    have "resume (Searching userMessage) net rd st0 = st0\<lparr>tasks := tasks st0 @ [Calling userMessage]\<rparr>"
      using that fields by (intro resume_search_empty) simp
    then have resumed: "step (Resumes i net rd) st = st0\<lparr>tasks := tasks st0 @ [Calling userMessage]\<rparr>"
      by (simp only: next_state)
    show ?thesis
      unfolding resumed using s fields alone by (simp add: generations_def)
  qed
  show ?thesis
    using fails empty by blast
qed

theorem search_failure_skips_fallback_witness:
  "tasks (exec first_turn (initial (open_db failing_search))) ! 0 = Searching ''hello'' \<and>
   searchCompanyData (database (exec first_turn (initial (open_db failing_search)))) ''hello''
     = Inl (Error ''disk I/O error'') \<and>
   Calling ''hello'' \<notin> set (tasks (step (Resumes 0 online (reads_at 3000))
       (exec first_turn (initial (open_db failing_search))))) \<and>
   map_option (last \<circ> messages) (currentSession (step (Resumes 0 online (reads_at 3000))
       (exec first_turn (initial (open_db failing_search)))))
     = Some (newMessage apology False (reads_at 3000)) \<and>
   returned (step (Resumes 0 online (reads_at 3000))
       (exec first_turn (initial (open_db failing_search))))
     = returned (exec first_turn (initial (open_db failing_search))) \<and>
   tasks (exec first_turn (initial (open_db no_match))) ! 0 = Searching ''hello'' \<and>
   searchCompanyData (database (exec first_turn (initial (open_db no_match)))) ''hello'' = Inr [] \<and>
   generations (step (Resumes 0 online (reads_at 3000))
       (exec first_turn (initial (open_db no_match)))) = [Calling ''hello'']"
proof -
  let ?st = "exec first_turn (initial (open_db failing_search))"
  let ?st' = "exec first_turn (initial (open_db no_match))"
  have searching: "0 < length (tasks ?st)" "tasks ?st ! 0 = Searching ''hello''"
    and fails: "searchCompanyData (database ?st) ''hello'' = Inl (Error ''disk I/O error'')"
    using first_turn_run(5,7) by simp_all
  have searching': "0 < length (tasks ?st')" "tasks ?st' ! 0 = Searching ''hello''"
    and no_record: "searchCompanyData (database ?st') ''hello'' = Inr []"
    using first_turn_run(2,8) by simp_all
  have apologised:
    "Calling ''hello'' \<notin> set (tasks (step (Resumes 0 online (reads_at 3000)) ?st))"
    "map_option (last \<circ> messages) (currentSession (step (Resumes 0 online (reads_at 3000)) ?st))
       = Some (newMessage apology False (reads_at 3000))"
    "returned (step (Resumes 0 online (reads_at 3000)) ?st) = returned ?st"
    using fails
      search_failure_skips_fallback [where evs = first_turn and db = "open_db failing_search"
        and i = 0 and userMessage = "''hello''" and e = "Error ''disk I/O error''"
        and net = online and rd = "reads_at 3000", OF refl searching]
    by (simp_all del: step.simps)
  have called: "generations (step (Resumes 0 online (reads_at 3000)) ?st') = [Calling ''hello'']"
    using no_record
      search_failure_skips_fallback [where evs = first_turn and db = "open_db no_match"
        and i = 0 and userMessage = "''hello''" and e = "Error []"
        and net = online and rd = "reads_at 3000", OF refl searching']
    by (simp del: step.simps)
  show ?thesis
    using searching(2) fails searching'(2) no_record apologised called
    by (simp del: step.simps)
qed

subsection \<open>C5: the flag after a call\<close>

text \<open>
  Claim C5, as stated: after any call of \<open>generateResponse\<close> the flag is clear. It is not
  after the early return of line 131. In the run below two user turns are completed
  before the first timer fires, so two timers are pending. The first call of
  \<open>generateResponse\<close> sets the flag and waits for its search; the second returns at
  once, and when it has returned (no timer is left and only the first generation is
  suspended) the flag is set.
\<close>

theorem flag_after_noop_counterexample:
  "timers (exec both_scheduled (initial (open_db no_match))) = [''hello'', ''thanks''] \<and>
   timers (exec two_timers (initial (open_db no_match))) = [] \<and>
   tasks (exec two_timers (initial (open_db no_match))) = [Searching ''hello''] \<and>
   isProcessing (exec two_timers (initial (open_db no_match)))"
  using two_timers_run by simp

text \<open>
  Claim C5, amended. In every state the service reaches from its construction:
  \<^item> a call of \<open>generateResponse\<close> that finds the flag clear sets it, and is suspended at
    its search with the flag set;
  \<^item> a call that finds the flag set returns at once and changes nothing, so the flag
    stays set;
  \<^item> when a resumption ends the running generation, by the return of its reply or by an
    exception, the flag is clear after it; and the flag is clear whenever no generation
    is running.
\<close>

theorem flag_set_and_released:
  assumes "st = exec evs (initial db)"
  shows "(\<not> isProcessing st \<longrightarrow>
            isProcessing (generateResponse_call st userMessage) \<and>
            tasks (generateResponse_call st userMessage) = tasks st @ [Searching userMessage]) \<and>
         (isProcessing st \<longrightarrow> generateResponse_call st userMessage = st) \<and>
         (i < length (tasks st) \<and> generating (tasks st ! i) \<and>
          generations (step (Resumes i net rd) st) = [] \<longrightarrow>
            \<not> isProcessing (step (Resumes i net rd) st)) \<and>
         (generations st = [] \<longrightarrow> \<not> isProcessing st)"
proof -
  have "single_flight st"
    unfolding assms by (rule reachable_single_flight)
  moreover have "single_flight (step (Resumes i net rd) st)"
    using reachable_single_flight [of "evs @ [Resumes i net rd]" db]
    by (simp add: assms exec_append)
  ultimately show ?thesis
    by (auto simp: single_flight_def generateResponse_call_def split: if_splits)
qed

theorem flag_set_and_released_witness:
  "\<not> isProcessing (exec both_scheduled (initial (open_db no_match))) \<and>
   isProcessing (generateResponse_call (exec both_scheduled (initial (open_db no_match))) ''hello'') \<and>
   isProcessing (exec first_turn (initial (open_db no_match))) \<and>
   generateResponse_call (exec first_turn (initial (open_db no_match))) ''thanks''
     = exec first_turn (initial (open_db no_match)) \<and>
   generating (tasks (exec search_resumed (initial (open_db failing_search))) ! 0) \<and>
   generations (step (Resumes 0 online (reads_at 3001))
       (exec search_resumed (initial (open_db failing_search)))) = [] \<and>
   \<not> isProcessing (step (Resumes 0 online (reads_at 3001))
       (exec search_resumed (initial (open_db failing_search)))) \<and>
   generations (exec generation_run (initial (open_db no_match))) = [] \<and>
   \<not> isProcessing (exec generation_run (initial (open_db no_match)))"
proof -
  let ?st = "exec search_resumed (initial (open_db failing_search))"
  have idle: "\<not> isProcessing (exec both_scheduled (initial (open_db no_match)))"
    and busy: "isProcessing (exec first_turn (initial (open_db no_match)))"
    using two_timers_run(1) first_turn_run(1) by simp_all
  have writing: "0 < length (tasks ?st)" "generating (tasks ?st ! 0)"
    using generation_runs(4) by simp_all
  have none: "generations (step (Resumes 0 online (reads_at 3001)) ?st) = []"
    using generation_runs(13) by (simp add: generations_def)
  have finished: "generations (exec generation_run (initial (open_db no_match))) = []"
    using generation_runs(10) by (simp add: generations_def)
  have set: "isProcessing (generateResponse_call (exec both_scheduled (initial (open_db no_match))) ''hello'')"
    using idle
      flag_set_and_released [where evs = both_scheduled and db = "open_db no_match"
        and userMessage = "''hello''", OF refl]
    by blast
  have noop: "generateResponse_call (exec first_turn (initial (open_db no_match))) ''thanks''
      = exec first_turn (initial (open_db no_match))"
    using busy
      flag_set_and_released [where evs = first_turn and db = "open_db no_match"
        and userMessage = "''thanks''", OF refl]
    by blast
  have released: "\<not> isProcessing (step (Resumes 0 online (reads_at 3001)) ?st)"
    using writing none
      flag_set_and_released [where evs = search_resumed and db = "open_db failing_search"
        and i = 0 and net = online and rd = "reads_at 3001", OF refl]
    by blast
  have clear: "\<not> isProcessing (exec generation_run (initial (open_db no_match)))"
    using finished
      flag_set_and_released [where evs = generation_run and db = "open_db no_match", OF refl]
    by blast
  show ?thesis
    using idle set busy noop writing(2) none released finished clear by simp
qed

subsection \<open>C6: the offline generator\<close>

text \<open>
  Claim C6. For the user message "hi", when the search of the local store returns no
  record and the connectivity check answers that there is no connection, the response
  is the fixed greeting, with confidence 0.9 and source \<open>default\<close> (the provenance
  "offline"). And for every message the offline generator, a function of the message
  alone, answers with source \<open>default\<close> and the confidence of its branch: 0.9 for the
  greeting, 0.8 for the help text, 0.9 for the thanks, 0.5 for the echo.
\<close>

theorem offline_generator:
  "(searchCompanyData db ''hi'' = Inr [] \<and> checkNetworkConnection net = Inr False \<longrightarrow>
      resolveResponse db net ''hi'' = Inr greeting) \<and>
   resp_text greeting =
     ''Hello! How can I help you today? I can assist you with company information and answer your questions.'' \<and>
   confidence greeting = 9 / 10 \<and> source greeting = Default \<and>
   generateMockResponse msg =
     (if greets msg then greeting
      else if str_includes (toLowerCase msg) ''help'' then help_reply
      else if str_includes (toLowerCase msg) ''thank'' then thanks_reply
      else echo_reply msg) \<and>
   confidence (generateMockResponse msg) =
     (if greets msg then 9 / 10
      else if str_includes (toLowerCase msg) ''help'' then 8 / 10
      else if str_includes (toLowerCase msg) ''thank'' then 9 / 10
      else 5 / 10) \<and>
   source (generateMockResponse msg) = Default"
proof -
  have hi: "generateMockResponse ''hi'' = greeting"
    by (simp add: generateMockResponse_def toLowerCase_def lower_char_def)
  have "resolveResponse db net ''hi'' = Inr greeting"
    if "searchCompanyData db ''hi'' = Inr []" "checkNetworkConnection net = Inr False"
    using that
    by (simp add: resolveResponse_def getChatbotResponse_def try_catch_def remote_body_def
          no_connection_def hi)
  moreover have "generateMockResponse msg =
     (if greets msg then greeting
      else if str_includes (toLowerCase msg) ''help'' then help_reply
      else if str_includes (toLowerCase msg) ''thank'' then thanks_reply
      else echo_reply msg)"
    by (simp add: generateMockResponse_def greets_def Let_def)
  ultimately show ?thesis
    by (simp add: greeting_def help_reply_def thanks_reply_def echo_reply_def)
qed

theorem offline_generator_witness:
  "searchCompanyData (open_db no_match) ''hi'' = Inr [] \<and>
   checkNetworkConnection offline = Inr False \<and>
   resolveResponse (open_db no_match) offline ''hi'' = Inr greeting \<and>
   greets ''hi'' \<and> confidence (generateMockResponse ''hi'') = 9 / 10 \<and>
   \<not> greets ''I need HELP'' \<and> confidence (generateMockResponse ''I need HELP'') = 8 / 10 \<and>
   \<not> greets ''Thanks a lot'' \<and> \<not> str_includes (toLowerCase ''Thanks a lot'') ''help'' \<and>
   confidence (generateMockResponse ''Thanks a lot'') = 9 / 10 \<and>
   \<not> greets ''refund'' \<and> confidence (generateMockResponse ''refund'') = 5 / 10"
proof -
  have search: "searchCompanyData (open_db no_match) ''hi'' = Inr []"
    by (simp add: searchCompanyData_def open_db_def no_match_def)
  have net: "checkNetworkConnection offline = Inr False"
    by (simp add: checkNetworkConnection_def offline_def)
  have branches:
    "greets ''hi''"
    "\<not> greets ''I need HELP''" "str_includes (toLowerCase ''I need HELP'') ''help''"
    "\<not> greets ''Thanks a lot''" "\<not> str_includes (toLowerCase ''Thanks a lot'') ''help''"
    "str_includes (toLowerCase ''Thanks a lot'') ''thank''"
    "\<not> greets ''refund''" "\<not> str_includes (toLowerCase ''refund'') ''help''"
    "\<not> str_includes (toLowerCase ''refund'') ''thank''"
    by code_simp+
  show ?thesis
    using search net branches
      offline_generator [of "open_db no_match" offline "''hi''"]
      offline_generator [of "open_db no_match" offline "''I need HELP''"]
      offline_generator [of "open_db no_match" offline "''Thanks a lot''"]
      offline_generator [of "open_db no_match" offline "''refund''"]
    by (simp add: greeting_def help_reply_def thanks_reply_def echo_reply_def)
qed

subsection \<open>C7: \<open>updatedAt\<close> and the timestamps\<close>

text \<open>
  Claim C7, as stated: after every append the \<open>updatedAt\<close> of the active session is at
  least the timestamp of each of its messages. The timestamp of a message (line 113)
  and the new \<open>updatedAt\<close> (line 117) are two readings of the system clock, and nothing
  in the code orders them. In the run below the clock is set back between the two: the
  message has timestamp 20 and the session \<open>updatedAt\<close> 15.
\<close>

theorem clock_set_back_counterexample:
  "map_option (map timestamp \<circ> messages)
     (currentSession (exec set_back_run (initial (open_db no_match)))) = Some [20] \<and>
   map_option updatedAt (currentSession (exec set_back_run (initial (open_db no_match)))) = Some 15 \<and>
   \<not> active_session_ok (exec set_back_run (initial (open_db no_match)))"
  by (simp add: model_defs active_session_ok_def session_ok_def)

text \<open>
  Claim C7, amended. Provided the readings of the system clock, taken in program
  order, never decrease: in every state reached from the construction of the service by
  calls of \<open>createNewSession\<close> and \<open>sendMessage\<close> (user turns, and the assistant turns
  sent by the generations), the \<open>updatedAt\<close> of the active session is at least the
  timestamp of each of its messages.
\<close>

theorem updatedAt_dominates_timestamps:
  "sorted (concat (map dates_of evs)) \<Longrightarrow> active_session_ok (exec evs (initial db))"
  using exec_good [of "initial db" evs]
  by (simp add: good_def initial_def active_session_ok_def split: option.splits)

theorem updatedAt_dominates_timestamps_witness:
  "sorted (concat (map dates_of answered_late)) \<and>
   map_option (map timestamp \<circ> messages)
     (currentSession (exec answered_late (initial (open_db no_match)))) = Some [1001, 1600, 2000] \<and>
   map_option updatedAt (currentSession (exec answered_late (initial (open_db no_match)))) = Some 2000 \<and>
   active_session_ok (exec answered_late (initial (open_db no_match)))"
proof -
  have clock: "sorted (concat (map dates_of answered_late))"
    by (simp add: answered_late_def late_pending_def late_sent_def first_turn_def
          send_dates_def reads_at_def)
  show ?thesis
    using clock late_run(6,7)
      updatedAt_dominates_timestamps [OF clock, of "open_db no_match"]
    by simp
qed

subsection \<open>C8: storage failures\<close>

text \<open>
  Claim C8, as stated: a storage failure in \<open>loadSession\<close> is propagated to the caller.
  It is not: \<open>loadSession\<close> catches it (lines 97 to 100) and returns \<open>null\<close>, the value
  it returns for an unknown identifier. On a service whose database was never opened:
\<close>

theorem loadSession_swallows_counterexample:
  "loadSession (initial None) ''session_1000_k3j9x0q1z'' = (Inr None, initial None)"
  by (simp add: loadSession_def getChatSessions_def initial_def)

text \<open>
  Claim C8, amended. When the database is not open, \<open>createNewSession\<close>,
  \<open>sendMessage\<close> and \<open>getAllSessions\<close> throw the storage error to their caller, and
  \<open>loadSession\<close> returns \<open>null\<close> and leaves the service as it was.
\<close>

theorem storage_failure_surfaced:
  "database st = None \<Longrightarrow>
     fst (createNewSession st title' crd) = Inl not_initialized \<and>
     fst (sendMessage st text' isUser' rd) = Inl not_initialized \<and>
     fst (getAllSessions st) = Inl not_initialized \<and>
     loadSession st sessionId = (Inr None, st)"
  by (auto simp: createNewSession_def sendMessage_def getAllSessions_def loadSession_def
        getChatSessions_def saveChatSession_def ensureSession_def persist_def saveMessage_def Let_def
        split: prod.splits sum.splits option.splits)

theorem storage_failure_surfaced_witness:
  "database (with_session None) = None \<and>
   fst (createNewSession (with_session None) (Some ''Orders'') (s_create (reads_at 5)))
     = Inl (Error ''Database not initialized'') \<and>
   fst (sendMessage (with_session None) ''hello'' True (reads_at 5))
     = Inl (Error ''Database not initialized'') \<and>
   fst (sendMessage (initial None) ''hello'' True (reads_at 5))
     = Inl (Error ''Database not initialized'') \<and>
   fst (getAllSessions (with_session None)) = Inl (Error ''Database not initialized'') \<and>
   loadSession (with_session None) ''session_1_k3j9x0q1z'' = (Inr None, with_session None)"
proof -
  have closed: "database (with_session None) = None" "database (initial None) = None"
    by (simp_all add: with_session_def initial_def)
  show ?thesis
    using closed
      storage_failure_surfaced [OF closed(1), of "Some ''Orders''" "s_create (reads_at 5)"
        "''hello''" True "reads_at 5" "''session_1_k3j9x0q1z''"]
      storage_failure_surfaced [OF closed(2), of None "s_create (reads_at 5)"
        "''hello''" True "reads_at 5" "''session_1_k3j9x0q1z''"]
    by (simp add: not_initialized_def)
qed

subsection \<open>C9: the remote calls never throw\<close>

text \<open>
  Claim C9. Each of \<open>getChatbotResponse\<close>, \<open>searchCompanyData\<close>, \<open>uploadAudioFile\<close> and
  \<open>syncLocalData\<close> of ApiService returns a value and never throws; and when the call
  fails (no connectivity, or the connectivity check or the request rejecting: server
  error, network error, timeout) the value has \<open>success = false\<close> and a non-empty
  \<open>error\<close>.
\<close>

theorem remote_calls_total:
  "(\<exists>r. getChatbotResponse net msg = Inr r \<and>
        (call_fails net \<longrightarrow> \<not> success r \<and> (\<exists>d. error r = Some d \<and> d \<noteq> []))) \<and>
   (\<exists>r. api_searchCompanyData net1 query = Inr r \<and>
        (call_fails net1 \<longrightarrow> \<not> success r \<and> (\<exists>d. error r = Some d \<and> d \<noteq> []))) \<and>
   (\<exists>r. uploadAudioFile net2 path = Inr r \<and>
        (call_fails net2 \<longrightarrow> \<not> success r \<and> (\<exists>d. error r = Some d \<and> d \<noteq> []))) \<and>
   (\<exists>r. syncLocalData net3 since = Inr r \<and>
        (call_fails net3 \<longrightarrow> \<not> success r \<and> (\<exists>d. error r = Some d \<and> d \<noteq> [])))"
  unfolding getChatbotResponse_def api_searchCompanyData_def uploadAudioFile_def syncLocalData_def
  by (intro conjI remote_call_total)

theorem remote_calls_total_witness:
  "call_fails offline \<and>
   map_sum id error (getChatbotResponse offline ''hi'') = Inr (Some ''No internet connection'') \<and>
   map_sum id success (getChatbotResponse offline ''hi'') = Inr False \<and>
   call_fails timed_out \<and>
   map_sum id error (getChatbotResponse timed_out ''hi'') = Inr (Some ''Network error'') \<and>
   map_sum id error (api_searchCompanyData timed_out ''hi'') = Inr (Some ''Network error'') \<and>
   map_sum id error (uploadAudioFile timed_out ''/tmp/recording.wav'') = Inr (Some ''Network error'') \<and>
   map_sum id error (syncLocalData timed_out None) = Inr (Some ''Network error'') \<and>
   call_fails server_down \<and>
   map_sum id error (getChatbotResponse server_down ''hi'') = Inr (Some ''Server error: 503'')"
proof -
  have fails: "call_fails offline" "call_fails timed_out" "call_fails server_down"
    by (simp_all add: call_fails_def offline_def timed_out_def server_down_def)
  have status: "string_of_nat 503 = ''503''"
    by code_simp
  show ?thesis
    using fails
      remote_calls_total [of offline "''hi''" timed_out "''hi''" timed_out "''/tmp/recording.wav''"
        timed_out None]
      remote_calls_total [of timed_out "''hi''" timed_out "''hi''" timed_out "''/tmp/recording.wav''"
        timed_out None]
      remote_calls_total [of server_down "''hi''" timed_out "''hi''" timed_out "''/tmp/recording.wav''"
        timed_out None]
    by (simp add: getChatbotResponse_def api_searchCompanyData_def uploadAudioFile_def
          syncLocalData_def try_catch_def remote_body_def checkNetworkConnection_def
          no_connection_def offline_def timed_out_def server_down_def status)
qed

subsection \<open>C10: "hi" anywhere\<close>

text \<open>
  Claim C10. Whenever the lower-cased message contains "hi" anywhere, also inside
  another word, the offline generator returns the greeting, also when the message
  contains "help" or "thank" as well.
\<close>

theorem hi_substring_greets:
  "str_includes (toLowerCase msg) ''hi'' \<Longrightarrow> generateMockResponse msg = greeting"
  by (simp add: generateMockResponse_def)

theorem hi_substring_greets_witness:
  "str_includes (toLowerCase ''Which plan? Thanks for the help'') ''hi'' \<and>
   str_includes (toLowerCase ''Which plan? Thanks for the help'') ''help'' \<and>
   str_includes (toLowerCase ''Which plan? Thanks for the help'') ''thank'' \<and>
   \<not> str_includes (toLowerCase ''Which plan? Thanks for the help'') ''hello'' \<and>
   generateMockResponse ''Which plan? Thanks for the help'' = greeting \<and>
   str_includes (toLowerCase ''this'') ''hi'' \<and> generateMockResponse ''this'' = greeting"
proof -
  have inside: "str_includes (toLowerCase ''Which plan? Thanks for the help'') ''hi''"
    "str_includes (toLowerCase ''this'') ''hi''"
    by code_simp+
  have others: "str_includes (toLowerCase ''Which plan? Thanks for the help'') ''help''"
    "str_includes (toLowerCase ''Which plan? Thanks for the help'') ''thank''"
    "\<not> str_includes (toLowerCase ''Which plan? Thanks for the help'') ''hello''"
    by code_simp+
  show ?thesis
    using inside others hi_substring_greets [OF inside(1)] hi_substring_greets [OF inside(2)]
    by simp
qed

end
